theory Spec2Isabelle
  imports Main
begin

section \<open>Formatting and parsing of integers\<close>

text \<open>
  The gateway builds its store keys with \<^verbatim>\<open>fmt.Sprintf\<close> (verbs \<^verbatim>\<open>%d\<close>, \<^verbatim>\<open>%02d\<close>
  and \<^verbatim>\<open>%s\<close>) and reads counters back with \<^verbatim>\<open>strconv.Atoi\<close>. Go strings are byte
  sequences, modelled as \<^typ>\<open>string\<close>. Go's \<^verbatim>\<open>int\<close> is taken to be 64 bits wide.
\<close>

definition digit_char :: "nat \<Rightarrow> char" where
  "digit_char d = char_of (48 + d)"

definition is_digit :: "char \<Rightarrow> bool" where
  "is_digit c = (48 \<le> (of_char c :: nat) \<and> (of_char c :: nat) \<le> 57)"

definition digit_val :: "char \<Rightarrow> int" where
  "digit_val c = int (of_char c) - 48"

text \<open>Decimal digits of a natural number, most significant first, no leading zero.\<close>

function digits_of :: "nat \<Rightarrow> string" where
  "digits_of n = (if n < 10 then [digit_char n] else digits_of (n div 10) @ [digit_char (n mod 10)])"
  by pat_completeness auto
termination
  by (relation "measure (\<lambda>n. n)") auto

declare digits_of.simps [simp del]

text \<open>\<^verbatim>\<open>%d\<close>: a minus sign for negative numbers, then the digits.\<close>

definition fmt_d :: "int \<Rightarrow> string" where
  "fmt_d n = (if n < 0 then CHR ''-'' # digits_of (nat (- n)) else digits_of (nat n))"

text \<open>
  \<^verbatim>\<open>%02d\<close>: as \<^verbatim>\<open>%d\<close>, padded with zeros after the sign to a total width of two.
\<close>

definition fmt_02d :: "int \<Rightarrow> string" where
  "fmt_02d n =
     (if n < 0 then CHR ''-'' # digits_of (nat (- n))
      else if n < 10 then CHR ''0'' # digits_of (nat n)
      else digits_of (nat n))"

text \<open>The value of a digit string.\<close>

definition digits_val :: "string \<Rightarrow> int" where
  "digits_val s = foldl (\<lambda>n ch. n * 10 + digit_val ch) 0 s"

definition minInt64 :: int where
  "minInt64 = - (2 ^ 63)"

definition maxInt64 :: int where
  "maxInt64 = 2 ^ 63 - 1"

datatype error =
    ConnError                 \<comment> \<open>the store could not be reached: connection failure, timeout, cancelled context\<close>
  | RedisNil                  \<comment> \<open>\<^verbatim>\<open>redis.Nil\<close>: the key does not exist\<close>
  | WrongType                 \<comment> \<open>the server's WRONGTYPE reply\<close>
  | NotAnInteger              \<comment> \<open>the server's ``value is not an integer or out of range'' reply\<close>
  | WouldOverflow             \<comment> \<open>the server's ``increment or decrement would overflow'' reply\<close>
  | ErrSyntax                 \<comment> \<open>\<^verbatim>\<open>strconv.ErrSyntax\<close>\<close>
  | ErrRange                  \<comment> \<open>\<^verbatim>\<open>strconv.ErrRange\<close>\<close>
  | Wrapped string error      \<comment> \<open>\<^verbatim>\<open>fmt.Errorf("...: %w", err)\<close>\<close>

text \<open>
  \<^verbatim>\<open>strconv.Atoi\<close>. A string of 1 to 18 bytes takes the fast path: an optional sign (a
  sign alone is a syntax error), then the loop \<^verbatim>\<open>n = n*10 + int(ch)\<close>, which stops with a
  syntax error at the first byte that is not a digit. Every other string goes through
  \<^verbatim>\<open>ParseInt(s, 10, 0)\<close>: the empty string is a syntax error; after the sign the digit
  loop of \<^verbatim>\<open>ParseUint\<close> runs on a \<^verbatim>\<open>uint64\<close> and stops at the first bad byte with a
  syntax error or at the first overflow with a range error, whichever it meets first;
  a value that fits the \<^verbatim>\<open>uint64\<close> is then checked against the range of \<^verbatim>\<open>int\<close>.
\<close>

definition maxUint64 :: int where
  "maxUint64 = 2 ^ 64 - 1"

fun fast_loop :: "int \<Rightarrow> string \<Rightarrow> error + int" where
  "fast_loop n [] = Inr n"
| "fast_loop n (ch # rest) =
     (if \<not> is_digit ch then Inl ErrSyntax else fast_loop (n * 10 + digit_val ch) rest)"

text \<open>
  The loop of \<^verbatim>\<open>ParseUint\<close> for base 10 and 64 bits: \<^verbatim>\<open>cutoff = maxUint64/10 + 1\<close>;
  \<^verbatim>\<open>n >= cutoff\<close> means that \<^verbatim>\<open>n*base\<close> overflows, and \<^verbatim>\<open>n1 < n || n1 > maxVal\<close>
  that \<^verbatim>\<open>n + d\<close> does.
\<close>

fun ParseUint_loop :: "int \<Rightarrow> string \<Rightarrow> error + int" where
  "ParseUint_loop n [] = Inr n"
| "ParseUint_loop n (c # rest) =
     (if \<not> is_digit c then Inl ErrSyntax
      else if maxUint64 div 10 + 1 \<le> n then Inl ErrRange
      else if maxUint64 < n * 10 + digit_val c then Inl ErrRange
      else ParseUint_loop (n * 10 + digit_val c) rest)"

definition ParseUint :: "string \<Rightarrow> error + int" where
  "ParseUint s = (if s = [] then Inl ErrSyntax else ParseUint_loop 0 s)"

text \<open>
  \<^verbatim>\<open>ParseInt\<close> passes a syntax error of \<^verbatim>\<open>ParseUint\<close> on; after a range error the
  value is \<^verbatim>\<open>maxVal\<close>, which is beyond the cutoff for either sign, so the result is a
  range error as well.
\<close>

definition ParseInt :: "string \<Rightarrow> error + int" where
  "ParseInt s0 =
     (case s0 of
        [] \<Rightarrow> Inl ErrSyntax
      | c # cs \<Rightarrow>
          (let neg = (c = CHR ''-'');
               s = (if c = CHR ''+'' \<or> c = CHR ''-'' then cs else s0)
           in case ParseUint s of
                Inl err \<Rightarrow> Inl err
              | Inr un \<Rightarrow>
                  if \<not> neg \<and> 2 ^ 63 \<le> un then Inl ErrRange
                  else if neg \<and> 2 ^ 63 < un then Inl ErrRange
                  else Inr (if neg then - un else un)))"

definition Atoi :: "string \<Rightarrow> error + int" where
  "Atoi s =
     (case s of
        [] \<Rightarrow> ParseInt s
      | c # cs \<Rightarrow>
          if length s < 19 then
            (let body = (if c = CHR ''-'' \<or> c = CHR ''+'' then cs else s) in
             if body = [] then Inl ErrSyntax
             else
               (case fast_loop 0 body of
                  Inl err \<Rightarrow> Inl err
                | Inr n \<Rightarrow> Inr (if c = CHR ''-'' then - n else n)))
          else ParseInt s)"

section \<open>Wall-clock time\<close>

text \<open>
  A \<^verbatim>\<open>time.Time\<close> is an instant together with a location. It is modelled by what its
  accessors return: the calendar fields of the wall clock in that location
  (\<^verbatim>\<open>now.Year()\<close>, \<^verbatim>\<open>now.Month()\<close>, ...), the offset from UTC, in seconds east, of the zone
  in effect at that instant, and the location itself (\<^verbatim>\<open>now.Location()\<close>). A location is
  its lookup function: for an instant in Unix seconds it gives the offset of the zone in
  effect and the interval \<open>[start, stop)\<close> of instants over which that zone is in effect.
\<close>

type_synonym Location = "int \<Rightarrow> int \<times> int \<times> int"

record Time =
  Year :: int
  Month :: int
  Day :: int
  Hour :: int
  Minute :: int
  Second :: int
  Nanosecond :: int
  Offset :: int
  Location :: Location

definition isLeap :: "int \<Rightarrow> bool" where
  "isLeap year = (year mod 4 = 0 \<and> (year mod 100 \<noteq> 0 \<or> year mod 400 = 0))"

definition daysIn :: "int \<Rightarrow> int \<Rightarrow> int" where
  "daysIn m year =
     (if m = 2 then (if isLeap year then 29 else 28)
      else if m = 4 \<or> m = 6 \<or> m = 9 \<or> m = 11 then 30
      else 31)"

text \<open>Calendar fields within their usual ranges.\<close>

definition valid_fields :: "Time \<Rightarrow> bool" where
  "valid_fields t =
     (1 \<le> Month t \<and> Month t \<le> 12 \<and>
      1 \<le> Day t \<and> Day t \<le> daysIn (Month t) (Year t) \<and>
      0 \<le> Hour t \<and> Hour t \<le> 23 \<and>
      0 \<le> Minute t \<and> Minute t \<le> 59 \<and>
      0 \<le> Second t \<and> Second t \<le> 59 \<and>
      0 \<le> Nanosecond t \<and> Nanosecond t \<le> 999999999)"

text \<open>
  \<^verbatim>\<open>time.Date\<close> accepts fields outside their usual ranges and normalises them
  (``October 32 converts to November 1''). \<open>norm_range\<close> is the library's
  \<^verbatim>\<open>norm(hi, lo, base)\<close>: it carries the overflow of \<open>lo\<close> into \<open>hi\<close>, leaving
  \<open>0 \<le> lo < base\<close>.
\<close>

definition norm_range :: "int \<Rightarrow> int \<Rightarrow> int \<Rightarrow> int \<times> int" where
  "norm_range hi lo base = (hi + lo div base, lo mod base)"

definition prev_month :: "int \<times> int \<Rightarrow> int \<times> int" where
  "prev_month ym = (if snd ym = 1 then (fst ym - 1, 12) else (fst ym, snd ym - 1))"

definition next_month :: "int \<times> int \<Rightarrow> int \<times> int" where
  "next_month ym = (if snd ym = 12 then (fst ym + 1, 1) else (fst ym, snd ym + 1))"

text \<open>
  A day of the month outside \<open>1 .. daysIn\<close> moves into the months before or after,
  one month at a time.
\<close>

function norm_day :: "int \<times> int \<Rightarrow> int \<Rightarrow> int \<times> int \<times> int" where
  "norm_day ym d =
     (if d < 1 then norm_day (prev_month ym) (d + daysIn (snd (prev_month ym)) (fst (prev_month ym)))
      else if daysIn (snd ym) (fst ym) < d then norm_day (next_month ym) (d - daysIn (snd ym) (fst ym))
      else (fst ym, snd ym, d))"
  by pat_completeness auto

termination norm_day
proof (relation "measure (\<lambda>(ym, d). if d < 1 then nat (1 - d) + 32 else nat d)", goal_cases)
  case 1
  show ?case by simp
next
  case (2 ym d)
  have "28 \<le> daysIn (snd (prev_month ym)) (fst (prev_month ym))"
       "daysIn (snd (prev_month ym)) (fst (prev_month ym)) \<le> 31"
    by (simp_all add: daysIn_def)
  with 2 show ?case by auto
next
  case (3 ym d)
  have "28 \<le> daysIn (snd ym) (fst ym)"
    by (simp add: daysIn_def)
  with 3 show ?case by auto
qed

declare norm_day.simps [simp del]

text \<open>
  The normalisation that \<^verbatim>\<open>time.Date\<close> starts with, giving the calendar fields of the
  wall clock; the offset and the location are handed through.
\<close>

definition civil ::
    "int \<Rightarrow> int \<Rightarrow> int \<Rightarrow> int \<Rightarrow> int \<Rightarrow> int \<Rightarrow> int \<Rightarrow> int \<Rightarrow> Location \<Rightarrow> Time" where
  "civil year month day hour minute sec nsec off loc =
     (let (year, m) = norm_range year (month - 1) 12;
          month = m + 1;
          (sec, nsec) = norm_range sec nsec 1000000000;
          (minute, sec) = norm_range minute sec 60;
          (hour, minute) = norm_range hour minute 60;
          (day, hour) = norm_range day hour 24;
          (year, month, day) = norm_day (year, month) day
      in \<lparr>Year = year, Month = month, Day = day, Hour = hour, Minute = minute,
          Second = sec, Nanosecond = nsec, Offset = off, Location = loc\<rparr>)"

text \<open>
  The seconds of a wall clock since 1 January of year 1, through the number of days up to
  the given day; the instant of a time in Unix seconds (\<^verbatim>\<open>t.Unix()\<close>) takes the zone
  offset off.
\<close>

definition daysBefore :: "int \<Rightarrow> int" where
  "daysBefore m =
     (if m = 1 then 0 else if m = 2 then 31 else if m = 3 then 59 else if m = 4 then 90
      else if m = 5 then 120 else if m = 6 then 151 else if m = 7 then 181
      else if m = 8 then 212 else if m = 9 then 243 else if m = 10 then 273
      else if m = 11 then 304 else 334)"

definition daysSinceEpoch :: "int \<Rightarrow> int" where
  "daysSinceEpoch year =
     (let y = year - 1 in 365 * y + y div 4 - y div 100 + y div 400)"

definition absDays :: "Time \<Rightarrow> int" where
  "absDays t = daysSinceEpoch (Year t) + daysBefore (Month t)
              + (if isLeap (Year t) \<and> 3 \<le> Month t then 1 else 0) + (Day t - 1)"

definition absSeconds :: "Time \<Rightarrow> int" where
  "absSeconds t = absDays t * 86400 + Hour t * 3600 + Minute t * 60 + Second t"


definition unixEpoch :: int where
  "unixEpoch = 62135596800"

definition Unix :: "Time \<Rightarrow> int" where
  "Unix t = absSeconds t - Offset t - unixEpoch"

text \<open>
  The values \<^verbatim>\<open>time.Now()\<close> can return: the fields are in range and the offset is the
  one the location gives for the instant.
\<close>

definition valid_time :: "Time \<Rightarrow> bool" where
  "valid_time t = (valid_fields t \<and> fst (Location t (Unix t)) = Offset t)"

text \<open>
  \<^verbatim>\<open>time.Date\<close> in a location. After the normalisation the wall clock is first read as
  if it were UTC (\<open>unix\<close>); the zone in effect at that instant gives a first offset, and
  when the instant corrected by it falls outside that zone's interval, the offset in
  effect at the corrected instant is taken instead. The offset taken is subtracted to
  give the instant of the result. The fields of the result are those of the wall clock
  at that instant, in the zone in effect then: the normalised wall clock moved by the
  difference between that zone's offset and the offset taken. Where the wall clock asked
  for does not exist (a gap at a zone transition) the result is therefore a different
  wall clock.
\<close>

definition Date ::
    "int \<Rightarrow> int \<Rightarrow> int \<Rightarrow> int \<Rightarrow> int \<Rightarrow> int \<Rightarrow> int \<Rightarrow> Location \<Rightarrow> Time" where
  "Date year month day hour minute sec nsec loc =
     (let w = civil year month day hour minute sec nsec 0 loc;
          unix = absSeconds w - unixEpoch;
          (offset, start, stop) = loc unix;
          taken =
            (if offset \<noteq> 0 then
               (let utc = unix - offset in
                if utc < start \<or> stop \<le> utc then fst (loc utc) else offset)
             else 0);
          off = fst (loc (unix - taken))
      in civil (Year w) (Month w) (Day w) (Hour w) (Minute w) (Second w + (off - taken))
           (Nanosecond w) off loc)"

text \<open>
  \<^verbatim>\<open>t.Sub(u)\<close> is the difference of the two instants in nanoseconds; it saturates at the
  bounds of a \<^verbatim>\<open>time.Duration\<close> (an \<^verbatim>\<open>int64\<close> of nanoseconds).
\<close>

definition Sub :: "Time \<Rightarrow> Time \<Rightarrow> int" where
  "Sub t u =
     max minInt64 (min maxInt64
       ((Unix t - Unix u) * 1000000000 + (Nanosecond t - Nanosecond u)))"

text \<open>
  The location \<^verbatim>\<open>time.UTC\<close>, and the locations with one zone only, whose offset never
  changes.
\<close>

definition UTC :: Location where
  "UTC = (\<lambda>u. (0, minInt64, maxInt64))"

definition fixed_offset :: "Location \<Rightarrow> bool" where
  "fixed_offset loc = (\<forall>u v. fst (loc u) = fst (loc v))"

section \<open>Windows, bucket keys and reset times\<close>

text \<open>
  The limiter passes a window around as a \<^verbatim>\<open>time.Duration\<close>. Every call site passes
  one of the three constants \<^verbatim>\<open>time.Minute\<close>, \<^verbatim>\<open>time.Hour\<close> and \<^verbatim>\<open>24 * time.Hour\<close>
  (the literal \<^verbatim>\<open>windows\<close> table), and \<^verbatim>\<open>getWindowKey\<close> and \<^verbatim>\<open>getWindowResetTime\<close> are
  unexported, so the \<^verbatim>\<open>default\<close> branches of their switches (which go through
  \<^verbatim>\<open>float64\<close> seconds) are never entered. The model's window type has exactly the
  three values.
\<close>

datatype window = time_Minute | time_Hour | time_Day

text \<open>A duration is a number of nanoseconds.\<close>

type_synonym Duration = int

definition nanos_Minute :: Duration where
  "nanos_Minute = 60 * 1000000000"

definition nanos_Hour :: Duration where
  "nanos_Hour = 60 * nanos_Minute"

fun duration :: "window \<Rightarrow> Duration" where
  "duration time_Minute = nanos_Minute"
| "duration time_Hour = nanos_Hour"
| "duration time_Day = 24 * nanos_Hour"

fun getWindowKey :: "Time \<Rightarrow> window \<Rightarrow> string" where
  "getWindowKey now time_Minute =
     fmt_d (Year now) @ ''-'' @ fmt_02d (Month now) @ ''-'' @ fmt_02d (Day now) @ ''-''
       @ fmt_02d (Hour now) @ ''-'' @ fmt_02d (Minute now)"
| "getWindowKey now time_Hour =
     fmt_d (Year now) @ ''-'' @ fmt_02d (Month now) @ ''-'' @ fmt_02d (Day now) @ ''-''
       @ fmt_02d (Hour now)"
| "getWindowKey now time_Day =
     fmt_d (Year now) @ ''-'' @ fmt_02d (Month now) @ ''-'' @ fmt_02d (Day now)"

fun getWindowResetTime :: "Time \<Rightarrow> window \<Rightarrow> Time" where
  "getWindowResetTime now time_Minute =
     Date (Year now) (Month now) (Day now) (Hour now) (Minute now + 1) 0 0 (Location now)"
| "getWindowResetTime now time_Hour =
     Date (Year now) (Month now) (Day now) (Hour now + 1) 0 0 0 (Location now)"
| "getWindowResetTime now time_Day =
     Date (Year now) (Month now) (Day now + 1) 0 0 0 0 (Location now)"

section \<open>The counter store\<close>

text \<open>
  The store is a Redis server reached through a client. The server's keyspace maps a key
  to a value with an optional time to live; the values used here are strings (the
  counters) and one set (the key \<^verbatim>\<open>valid_keys\<close>). The time to live is recorded as the
  duration last handed to \<^verbatim>\<open>EXPIRE\<close>; the passing of time between calls, which removes
  expired keys, is outside the model.

  A round trip to the server can fail (connection failure, timeout, cancelled context).
  Which ones fail is an input from the environment: \<open>fault w n\<close> says whether the
  \<open>n\<close>-th round trip fails, and \<open>trips w\<close> counts the round trips made so far. A failed
  round trip does not reach the server.
\<close>

datatype rvalue = RString string | RSet "string set"

record entry =
  content :: rvalue
  ttl :: "Duration option"

type_synonym keyspace = "string \<rightharpoonup> entry"

record world =
  db :: keyspace
  fault :: "nat \<Rightarrow> bool"
  trips :: nat

definition roundtrip :: "world \<Rightarrow> bool \<times> world" where
  "roundtrip w = (\<not> fault w (trips w), w\<lparr>trips := trips w + 1\<rparr>)"

subsection \<open>Server commands\<close>

definition GET :: "keyspace \<Rightarrow> string \<Rightarrow> error + string" where
  "GET d key =
     (case d key of
        None \<Rightarrow> Inl RedisNil
      | Some e \<Rightarrow> (case content e of RString s \<Rightarrow> Inr s | RSet _ \<Rightarrow> Inl WrongType))"

text \<open>
  The server's own integer parser, used by \<^verbatim>\<open>INCR\<close>, is stricter than \<^verbatim>\<open>Atoi\<close>: no plus
  sign and no leading zero.
\<close>

definition string2ll :: "string \<Rightarrow> int option" where
  "string2ll s =
     (if s = ''0'' then Some 0
      else
        (let body = (case s of [] \<Rightarrow> [] | c # cs \<Rightarrow> if c = CHR ''-'' then cs else s) in
         case body of
           [] \<Rightarrow> None
         | b # bs \<Rightarrow>
             if b = CHR ''0'' \<or> \<not> list_all is_digit body then None
             else
               (let n = (if hd s = CHR ''-'' then - digits_val body else digits_val body) in
                if n < minInt64 \<or> maxInt64 < n then None else Some n)))"

definition INCR :: "keyspace \<Rightarrow> string \<Rightarrow> (error + int) \<times> keyspace" where
  "INCR d key =
     (case d key of
        None \<Rightarrow> (Inr 1, d(key \<mapsto> \<lparr>content = RString ''1'', ttl = None\<rparr>))
      | Some e \<Rightarrow>
          (case content e of
             RSet _ \<Rightarrow> (Inl WrongType, d)
           | RString s \<Rightarrow>
               (case string2ll s of
                  None \<Rightarrow> (Inl NotAnInteger, d)
                | Some n \<Rightarrow>
                    if n = maxInt64 then (Inl WouldOverflow, d)
                    else (Inr (n + 1), d(key \<mapsto> e\<lparr>content := RString (fmt_d (n + 1))\<rparr>)))))"

definition EXPIRE :: "keyspace \<Rightarrow> string \<Rightarrow> Duration \<Rightarrow> keyspace" where
  "EXPIRE d key dur =
     (case d key of
        None \<Rightarrow> d
      | Some e \<Rightarrow> if dur \<le> 0 then d(key := None) else d(key \<mapsto> e\<lparr>ttl := Some dur\<rparr>))"

definition SADD :: "keyspace \<Rightarrow> string \<Rightarrow> string \<Rightarrow> (error + int) \<times> keyspace" where
  "SADD d key member =
     (case d key of
        None \<Rightarrow> (Inr 1, d(key \<mapsto> \<lparr>content = RSet {member}, ttl = None\<rparr>))
      | Some e \<Rightarrow>
          (case content e of
             RString _ \<Rightarrow> (Inl WrongType, d)
           | RSet ms \<Rightarrow>
               (Inr (if member \<in> ms then 0 else 1), d(key \<mapsto> e\<lparr>content := RSet (insert member ms)\<rparr>))))"

definition SREM :: "keyspace \<Rightarrow> string \<Rightarrow> string \<Rightarrow> (error + int) \<times> keyspace" where
  "SREM d key member =
     (case d key of
        None \<Rightarrow> (Inr 0, d)
      | Some e \<Rightarrow>
          (case content e of
             RString _ \<Rightarrow> (Inl WrongType, d)
           | RSet ms \<Rightarrow>
               (Inr (if member \<in> ms then 1 else 0),
                if ms - {member} = {} then d(key := None)
                else d(key \<mapsto> e\<lparr>content := RSet (ms - {member})\<rparr>))))"

subsection \<open>The client (\<^verbatim>\<open>storage.RedisClient\<close>)\<close>

text \<open>
  Every operation takes the world and returns its result with the world after it.
  A Go result \<^verbatim>\<open>(v, nil)\<close> is \<open>Inr v\<close> and \<^verbatim>\<open>(0, err)\<close> is \<open>Inl err\<close>. A function that
  calls \<^verbatim>\<open>time.Now()\<close> takes the reading as its argument \<open>now\<close>. Calls to the logger
  are left out: they touch neither the store nor the control flow.
\<close>

definition client_Get :: "string \<Rightarrow> world \<Rightarrow> (error + string) \<times> world" where
  "client_Get key w =
     (let (ok, w1) = roundtrip w in
      if \<not> ok then (Inl ConnError, w1) else (GET (db w1) key, w1))"

text \<open>
  \<^verbatim>\<open>pipe.Incr\<close>, \<^verbatim>\<open>pipe.Expire\<close>, \<^verbatim>\<open>pipe.Exec\<close>: both commands travel in one round trip and
  both are executed (the pipeline is not a transaction); \<^verbatim>\<open>Exec\<close> reports the first
  command error.
\<close>

definition client_IncrExpire :: "string \<Rightarrow> Duration \<Rightarrow> world \<Rightarrow> (error + int) \<times> world" where
  "client_IncrExpire key dur w =
     (let (ok, w1) = roundtrip w in
      if \<not> ok then (Inl ConnError, w1)
      else
        (let (incr, d1) = INCR (db w1) key;
             d2 = EXPIRE d1 key dur
         in (incr, w1\<lparr>db := d2\<rparr>)))"

definition RedisClient_IncrementRateLimit ::
    "string \<Rightarrow> string \<Rightarrow> int \<Rightarrow> world \<Rightarrow> (error + int) \<times> world" where
  "RedisClient_IncrementRateLimit apiKey win lim w =
     (let key = ''rate:'' @ apiKey @ '':'' @ win in
      case client_IncrExpire key nanos_Hour w of
        (Inl err, w1) \<Rightarrow> (Inl (Wrapped ''failed to increment rate limit'' err), w1)
      | (Inr cur, w1) \<Rightarrow> (Inr cur, w1))"

definition GetRateLimit :: "string \<Rightarrow> string \<Rightarrow> world \<Rightarrow> (error + int) \<times> world" where
  "GetRateLimit apiKey win w =
     (let key = ''rate:'' @ apiKey @ '':'' @ win in
      case client_Get key w of
        (Inl err, w1) \<Rightarrow>
          if err = RedisNil then (Inr 0, w1)
          else (Inl (Wrapped ''failed to get rate limit'' err), w1)
      | (Inr v, w1) \<Rightarrow>
          (case Atoi v of
             Inl err \<Rightarrow> (Inl (Wrapped ''failed to parse rate limit count'' err), w1)
           | Inr count \<Rightarrow> (Inr count, w1)))"

definition monthKey :: "Time \<Rightarrow> string" where
  "monthKey now = fmt_d (Year now) @ ''-'' @ fmt_02d (Month now)"

definition IncrementMonthlyQuota ::
    "Time \<Rightarrow> string \<Rightarrow> int \<Rightarrow> world \<Rightarrow> (error + int) \<times> world" where
  "IncrementMonthlyQuota now apiKey quota w =
     (let key = ''quota:'' @ apiKey @ '':'' @ monthKey now;
          expiration = Sub (Date (Year now) (Month now + 1) 1 0 0 0 0 (Location now)) now
      in
      case client_IncrExpire key expiration w of
        (Inl err, w1) \<Rightarrow> (Inl (Wrapped ''failed to increment monthly quota'' err), w1)
      | (Inr cur, w1) \<Rightarrow> (Inr cur, w1))"

definition GetMonthlyQuota :: "Time \<Rightarrow> string \<Rightarrow> world \<Rightarrow> (error + int) \<times> world" where
  "GetMonthlyQuota now apiKey w =
     (let key = ''quota:'' @ apiKey @ '':'' @ monthKey now in
      case client_Get key w of
        (Inl err, w1) \<Rightarrow>
          if err = RedisNil then (Inr 0, w1)
          else (Inl (Wrapped ''failed to get monthly quota'' err), w1)
      | (Inr v, w1) \<Rightarrow>
          (case Atoi v of
             Inl err \<Rightarrow> (Inl (Wrapped ''failed to parse monthly quota count'' err), w1)
           | Inr count \<Rightarrow> (Inr count, w1)))"

definition ValidateAPIKey :: "string \<Rightarrow> world \<Rightarrow> (error + bool) \<times> world" where
  "ValidateAPIKey apiKey w = (if apiKey = [] then (Inr False, w) else (Inr True, w))"

definition client_SetCommand ::
    "(keyspace \<Rightarrow> string \<Rightarrow> string \<Rightarrow> (error + int) \<times> keyspace) \<Rightarrow> string \<Rightarrow> string \<Rightarrow> world
      \<Rightarrow> error option \<times> world" where
  "client_SetCommand cmd key member w =
     (let (ok, w1) = roundtrip w in
      if \<not> ok then (Some ConnError, w1)
      else
        (case cmd (db w1) key member of
           (Inl err, d1) \<Rightarrow> (Some err, w1\<lparr>db := d1\<rparr>)
         | (Inr _, d1) \<Rightarrow> (None, w1\<lparr>db := d1\<rparr>)))"

definition AddValidAPIKey :: "string \<Rightarrow> world \<Rightarrow> error option \<times> world" where
  "AddValidAPIKey apiKey w = client_SetCommand SADD ''valid_keys'' apiKey w"

definition RemoveValidAPIKey :: "string \<Rightarrow> world \<Rightarrow> error option \<times> world" where
  "RemoveValidAPIKey apiKey w = client_SetCommand SREM ''valid_keys'' apiKey w"

section \<open>The admission engine (\<^verbatim>\<open>limiter.RateLimiter\<close>)\<close>

record RateLimitConfig =
  RequestsPerMinute :: int
  RequestsPerHour :: int
  RequestsPerDay :: int
  MonthlyQuota :: int
  WindowSize :: Duration

record RateLimitResult =
  Allowed :: bool
  Remaining :: int
  ResetTime :: Time
  Limit :: int
  Window :: string
  QuotaUsed :: int
  QuotaLimit :: int

text \<open>The literal table \<^verbatim>\<open>windows\<close>: name, limit and duration, in this order.\<close>

definition windows :: "RateLimitConfig \<Rightarrow> (string \<times> int \<times> window) list" where
  "windows config =
     [(''minute'', RequestsPerMinute config, time_Minute),
      (''hour'', RequestsPerHour config, time_Hour),
      (''day'', RequestsPerDay config, time_Day)]"

text \<open>
  The loop \<^verbatim>\<open>for _, w := range windows\<close> of \<^verbatim>\<open>CheckRateLimit\<close>, with the statement after
  the loop (``all checks passed'') as the case of the empty list.
\<close>

fun check_windows ::
    "RateLimitConfig \<Rightarrow> Time \<Rightarrow> string \<Rightarrow> int \<Rightarrow> (string \<times> int \<times> window) list \<Rightarrow> world
      \<Rightarrow> (error + RateLimitResult) \<times> world" where
  "check_windows config now apiKey quotaUsed [] w =
     (Inr \<lparr>Allowed = True,
           Remaining = RequestsPerMinute config,
           ResetTime = getWindowResetTime now time_Minute,
           Limit = RequestsPerMinute config,
           Window = ''minute'',
           QuotaUsed = quotaUsed,
           QuotaLimit = MonthlyQuota config\<rparr>, w)"
| "check_windows config now apiKey quotaUsed ((name, lim, win) # rest) w =
     (case GetRateLimit apiKey (getWindowKey now win) w of
        (Inl err, w1) \<Rightarrow>
          (Inl (Wrapped (''failed to get rate limit for '' @ name @ '' window'') err), w1)
      | (Inr cur, w1) \<Rightarrow>
          if lim \<le> cur then
            (Inr \<lparr>Allowed = False,
                  Remaining = 0,
                  ResetTime = getWindowResetTime now win,
                  Limit = lim,
                  Window = name,
                  QuotaUsed = quotaUsed,
                  QuotaLimit = MonthlyQuota config\<rparr>, w1)
          else check_windows config now apiKey quotaUsed rest w1)"

text \<open>
  \<open>now\<close> is the reading of \<^verbatim>\<open>time.Now()\<close> taken by \<^verbatim>\<open>CheckRateLimit\<close> itself, \<open>qnow\<close>
  the one taken afterwards inside \<^verbatim>\<open>GetMonthlyQuota\<close>.
\<close>

definition CheckRateLimit ::
    "RateLimitConfig \<Rightarrow> Time \<Rightarrow> Time \<Rightarrow> string \<Rightarrow> world \<Rightarrow> (error + RateLimitResult) \<times> world" where
  "CheckRateLimit config now qnow apiKey w =
     (case GetMonthlyQuota qnow apiKey w of
        (Inl err, w1) \<Rightarrow> (Inl (Wrapped ''failed to get monthly quota'' err), w1)
      | (Inr quotaUsed, w1) \<Rightarrow>
          if MonthlyQuota config \<le> quotaUsed then
            (Inr \<lparr>Allowed = False,
                  Remaining = 0,
                  ResetTime = Date (Year now) (Month now + 1) 1 0 0 0 0 (Location now),
                  Limit = 0,
                  Window = ''monthly'',
                  QuotaUsed = quotaUsed,
                  QuotaLimit = MonthlyQuota config\<rparr>, w1)
          else check_windows config now apiKey quotaUsed (windows config) w1)"



text \<open>
  \<^verbatim>\<open>GetRateLimitInfo\<close> returns nested maps; the outer one has the two fixed keys
  \<^verbatim>\<open>monthly_quota\<close> and \<^verbatim>\<open>rate_limits\<close>. The subtraction \<^verbatim>\<open>w.limit - current\<close> is on
  64-bit integers and wraps around.
\<close>

definition wrap_int64 :: "int \<Rightarrow> int" where
  "wrap_int64 x = (x + 2 ^ 63) mod 2 ^ 64 - 2 ^ 63"

record window_info =
  info_current :: int
  info_limit :: int
  info_remaining :: int
  info_reset_time :: Time

record rate_limit_info =
  monthly_quota_used :: int
  monthly_quota_limit :: int
  rate_limits :: "string \<rightharpoonup> window_info"

fun info_windows ::
    "Time \<Rightarrow> string \<Rightarrow> rate_limit_info \<Rightarrow> (string \<times> int \<times> window) list \<Rightarrow> world
      \<Rightarrow> (error + rate_limit_info) \<times> world" where
  "info_windows now apiKey result [] w = (Inr result, w)"
| "info_windows now apiKey result ((name, lim, win) # rest) w =
     (case GetRateLimit apiKey (getWindowKey now win) w of
        (Inl err, w1) \<Rightarrow>
          (Inl (Wrapped (''failed to get rate limit for '' @ name @ '' window'') err), w1)
      | (Inr cur, w1) \<Rightarrow>
          info_windows now apiKey
            (result\<lparr>rate_limits := (rate_limits result)(name \<mapsto>
               \<lparr>info_current = cur,
                info_limit = lim,
                info_remaining = wrap_int64 (lim - cur),
                info_reset_time = getWindowResetTime now win\<rparr>)\<rparr>)
            rest w1)"

definition GetRateLimitInfo ::
    "RateLimitConfig \<Rightarrow> Time \<Rightarrow> Time \<Rightarrow> string \<Rightarrow> world \<Rightarrow> (error + rate_limit_info) \<times> world" where
  "GetRateLimitInfo config now qnow apiKey w =
     (case GetMonthlyQuota qnow apiKey w of
        (Inl err, w1) \<Rightarrow> (Inl (Wrapped ''failed to get monthly quota'' err), w1)
      | (Inr quotaUsed, w1) \<Rightarrow>
          info_windows now apiKey
            \<lparr>monthly_quota_used = quotaUsed,
             monthly_quota_limit = MonthlyQuota config,
             rate_limits = Map.empty\<rparr>
            (windows config) w1)"

section \<open>Authentication (\<^verbatim>\<open>middleware.AuthMiddleware\<close>)\<close>

text \<open>
  The handler either aborts the request with a status, a message and an error code, or
  stores the key in the request context and lets the request through.
  \<^verbatim>\<open>c.GetHeader\<close> yields the empty string for a missing header.
\<close>

datatype auth_outcome =
    Abort nat string string
  | Next string

definition Authenticate :: "string \<Rightarrow> world \<Rightarrow> auth_outcome \<times> world" where
  "Authenticate apiKey w =
     (if apiKey = [] then (Abort 401 ''API key is required'' ''MISSING_API_KEY'', w)
      else
        (case ValidateAPIKey apiKey w of
           (Inl err, w1) \<Rightarrow> (Abort 500 ''Internal server error'' ''VALIDATION_ERROR'', w1)
         | (Inr valid, w1) \<Rightarrow>
             if \<not> valid then (Abort 401 ''Invalid API key'' ''INVALID_API_KEY'', w1)
             else (Next apiKey, w1)))"

section \<open>Calendar notions of the specification\<close>

text \<open>
  The specification names the reset instants in calendar terms: the start of the next
  minute, hour and day, and the first instant of the next month. They are written here
  directly on the calendar fields, in the zone and location of the given time, to be
  compared with what the code computes through \<^verbatim>\<open>time.Date\<close>.
\<close>

definition start_of_next_month :: "Time \<Rightarrow> Time" where
  "start_of_next_month t =
     (if Month t = 12
      then \<lparr>Year = Year t + 1, Month = 1, Day = 1, Hour = 0, Minute = 0,
            Second = 0, Nanosecond = 0, Offset = Offset t, Location = Location t\<rparr>
      else \<lparr>Year = Year t, Month = Month t + 1, Day = 1, Hour = 0, Minute = 0,
            Second = 0, Nanosecond = 0, Offset = Offset t, Location = Location t\<rparr>)"

definition start_of_next_day :: "Time \<Rightarrow> Time" where
  "start_of_next_day t =
     (if Day t = daysIn (Month t) (Year t) then start_of_next_month t
      else \<lparr>Year = Year t, Month = Month t, Day = Day t + 1, Hour = 0, Minute = 0,
            Second = 0, Nanosecond = 0, Offset = Offset t, Location = Location t\<rparr>)"

definition start_of_next_hour :: "Time \<Rightarrow> Time" where
  "start_of_next_hour t =
     (if Hour t = 23 then start_of_next_day t
      else \<lparr>Year = Year t, Month = Month t, Day = Day t, Hour = Hour t + 1, Minute = 0,
            Second = 0, Nanosecond = 0, Offset = Offset t, Location = Location t\<rparr>)"

definition start_of_next_minute :: "Time \<Rightarrow> Time" where
  "start_of_next_minute t =
     (if Minute t = 59 then start_of_next_hour t
      else \<lparr>Year = Year t, Month = Month t, Day = Day t, Hour = Hour t, Minute = Minute t + 1,
            Second = 0, Nanosecond = 0, Offset = Offset t, Location = Location t\<rparr>)"



text \<open>
  A stored value the specification calls a parseable integer: an optional sign followed by
  one or more decimal digits.
\<close>

definition decimal_digits :: "string \<Rightarrow> bool" where
  "decimal_digits ds = (ds \<noteq> [] \<and> set ds \<subseteq> set ''0123456789'')"

definition integer_literal :: "string \<Rightarrow> bool" where
  "integer_literal s =
     (decimal_digits s \<or>
      (case s of [] \<Rightarrow> False
       | c # ds \<Rightarrow> (c = CHR ''+'' \<or> c = CHR ''-'') \<and> decimal_digits ds))"

text \<open>The two key families of the store.\<close>

abbreviation rate_key :: "string \<Rightarrow> string \<Rightarrow> string" where
  "rate_key apiKey bucket \<equiv> ''rate:'' @ apiKey @ '':'' @ bucket"

abbreviation quota_key :: "string \<Rightarrow> Time \<Rightarrow> string" where
  "quota_key apiKey now \<equiv> ''quota:'' @ apiKey @ '':'' @ monthKey now"

section \<open>Sample data\<close>

text \<open>
  A caller \<^verbatim>\<open>k1\<close> at 12:34:05 UTC on 1 January 2024, with 7 requests counted this month and
  this day, 6 this hour and 5 this minute.
\<close>

definition sample_config :: RateLimitConfig where
  "sample_config = \<lparr>RequestsPerMinute = 2, RequestsPerHour = 100, RequestsPerDay = 1000,
     MonthlyQuota = 10000, WindowSize = nanos_Minute\<rparr>"

definition sample_time :: Time where
  "sample_time = \<lparr>Year = 2024, Month = 1, Day = 1, Hour = 12, Minute = 34, Second = 5,
     Nanosecond = 7, Offset = 0, Location = UTC\<rparr>"



definition counter :: "string \<Rightarrow> entry" where
  "counter s = \<lparr>content = RString s, ttl = Some nanos_Hour\<rparr>"

definition sample_db :: keyspace where
  "sample_db = [''quota:k1:2024-01'' \<mapsto> counter ''7'',
                ''rate:k1:2024-01-01-12-34'' \<mapsto> counter ''5'',
                ''rate:k1:2024-01-01-12'' \<mapsto> counter ''6'',
                ''rate:k1:2024-01-01'' \<mapsto> counter ''7'']"

definition sample_world :: world where
  "sample_world = \<lparr>db = sample_db, fault = (\<lambda>n. False), trips = 0\<rparr>"

definition limits :: "int \<Rightarrow> int \<Rightarrow> int \<Rightarrow> int \<Rightarrow> RateLimitConfig" where
  "limits perMinute perHour perDay monthly =
     \<lparr>RequestsPerMinute = perMinute, RequestsPerHour = perHour, RequestsPerDay = perDay,
      MonthlyQuota = monthly, WindowSize = nanos_Minute\<rparr>"


definition store_down :: error where
  "store_down = Wrapped ''failed to get rate limit'' ConnError"

definition corrupt_world :: world where
  "corrupt_world =
     \<lparr>db = [''quota:k1:2024-01'' \<mapsto> counter ''99999999999999999999x'',
             ''rate:k1:2024-01-01-12-34'' \<mapsto> counter ''12x''],
      fault = (\<lambda>n. False), trips = 0\<rparr>"

text \<open>
  A commit for \<^verbatim>\<open>k1\<close> on an empty store, with the round trips that fail given by \<open>f\<close>,
  and the worlds after each of its four increments.
\<close>

definition fresh_world :: "(nat \<Rightarrow> bool) \<Rightarrow> world" where
  "fresh_world f = \<lparr>db = Map.empty, fault = f, trips = 0\<rparr>"

definition after_quota :: "(nat \<Rightarrow> bool) \<Rightarrow> world" where
  "after_quota f =
     snd (IncrementMonthlyQuota sample_time ''k1'' (MonthlyQuota sample_config) (fresh_world f))"

definition after_minute :: "(nat \<Rightarrow> bool) \<Rightarrow> world" where
  "after_minute f =
     snd (RedisClient_IncrementRateLimit ''k1'' (getWindowKey sample_time time_Minute)
            (RequestsPerMinute sample_config) (after_quota f))"

definition after_hour :: "(nat \<Rightarrow> bool) \<Rightarrow> world" where
  "after_hour f =
     snd (RedisClient_IncrementRateLimit ''k1'' (getWindowKey sample_time time_Hour)
            (RequestsPerHour sample_config) (after_minute f))"

definition after_day :: "(nat \<Rightarrow> bool) \<Rightarrow> world" where
  "after_day f =
     snd (RedisClient_IncrementRateLimit ''k1'' (getWindowKey sample_time time_Day)
            (RequestsPerDay sample_config) (after_hour f))"



section \<open>Lemmas: reads leave the store as it is\<close>

lemma client_Get_world: "snd (client_Get key w) = w\<lparr>trips := trips w + 1\<rparr>"
  by (simp add: client_Get_def roundtrip_def)

lemma GetRateLimit_world: "snd (GetRateLimit apiKey win w) = w\<lparr>trips := trips w + 1\<rparr>"
  using client_Get_world [of "''rate:'' @ apiKey @ '':'' @ win" w]
  by (auto simp: GetRateLimit_def split: prod.splits sum.splits)

lemma GetMonthlyQuota_world: "snd (GetMonthlyQuota now apiKey w) = w\<lparr>trips := trips w + 1\<rparr>"
  using client_Get_world [of "''quota:'' @ apiKey @ '':'' @ monthKey now" w]
  by (auto simp: GetMonthlyQuota_def split: prod.splits sum.splits)

lemma check_windows_db: "db (snd (check_windows config now apiKey quotaUsed ws w)) = db w"
proof (induction ws arbitrary: w)
  case Nil
  show ?case by simp
next
  case (Cons x rest)
  obtain name lim win where x: "x = (name, lim, win)" by (cases x)
  obtain r w1 where g: "GetRateLimit apiKey (getWindowKey now win) w = (r, w1)"
    by (cases "GetRateLimit apiKey (getWindowKey now win) w")
  have w1: "w1 = w\<lparr>trips := trips w + 1\<rparr>"
    using GetRateLimit_world [of apiKey "getWindowKey now win" w] g by simp
  show ?case
    using Cons.IH [of w1] by (cases r) (simp_all add: x g w1)
qed

lemma info_windows_db: "db (snd (info_windows now apiKey result ws w)) = db w"
proof (induction ws arbitrary: w result)
  case Nil
  show ?case by simp
next
  case (Cons x rest)
  obtain name lim win where x: "x = (name, lim, win)" by (cases x)
  obtain r w1 where g: "GetRateLimit apiKey (getWindowKey now win) w = (r, w1)"
    by (cases "GetRateLimit apiKey (getWindowKey now win) w")
  have w1: "w1 = w\<lparr>trips := trips w + 1\<rparr>"
    using GetRateLimit_world [of apiKey "getWindowKey now win" w] g by simp
  show ?case
    using Cons.IH [of _ w1] by (cases r) (simp_all add: x g w1)
qed

lemma CheckRateLimit_db: "db (snd (CheckRateLimit config now qnow apiKey w)) = db w"
proof -
  obtain r w1 where g: "GetMonthlyQuota qnow apiKey w = (r, w1)"
    by (cases "GetMonthlyQuota qnow apiKey w")
  have w1: "db w1 = db w"
    using GetMonthlyQuota_world [of qnow apiKey w] g by simp
  show ?thesis
    by (cases r) (simp_all add: CheckRateLimit_def g w1 check_windows_db)
qed

lemma GetRateLimitInfo_db: "db (snd (GetRateLimitInfo config now qnow apiKey w)) = db w"
proof -
  obtain r w1 where g: "GetMonthlyQuota qnow apiKey w = (r, w1)"
    by (cases "GetMonthlyQuota qnow apiKey w")
  have w1: "db w1 = db w"
    using GetMonthlyQuota_world [of qnow apiKey w] g by simp
  show ?thesis
    by (cases r) (simp_all add: GetRateLimitInfo_def g w1 info_windows_db)
qed

lemma GetRateLimitInfo_reports:
  assumes "GetMonthlyQuota qnow apiKey w = (Inr used, w1)"
    and "GetRateLimit apiKey (getWindowKey now time_Minute) w1 = (Inr c1, w2)"
    and "GetRateLimit apiKey (getWindowKey now time_Hour) w2 = (Inr c2, w3)"
    and "GetRateLimit apiKey (getWindowKey now time_Day) w3 = (Inr c3, w4)"
  shows "GetRateLimitInfo config now qnow apiKey w =
    (Inr \<lparr>monthly_quota_used = used, monthly_quota_limit = MonthlyQuota config,
          rate_limits = [''minute'' \<mapsto> \<lparr>info_current = c1, info_limit = RequestsPerMinute config,
                info_remaining = wrap_int64 (RequestsPerMinute config - c1),
                info_reset_time = getWindowResetTime now time_Minute\<rparr>,
             ''hour'' \<mapsto> \<lparr>info_current = c2, info_limit = RequestsPerHour config,
                info_remaining = wrap_int64 (RequestsPerHour config - c2),
                info_reset_time = getWindowResetTime now time_Hour\<rparr>,
             ''day'' \<mapsto> \<lparr>info_current = c3, info_limit = RequestsPerDay config,
                info_remaining = wrap_int64 (RequestsPerDay config - c3),
                info_reset_time = getWindowResetTime now time_Day\<rparr>]\<rparr>, w4)"
  using assms by (simp add: GetRateLimitInfo_def windows_def)

section \<open>Lemmas: normalisation by \<^verbatim>\<open>time.Date\<close>\<close>

lemma norm_day_id: "1 \<le> d \<Longrightarrow> d \<le> daysIn m y \<Longrightarrow> norm_day (y, m) d = (y, m, d)"
  by (simp add: norm_day.simps [of "(y, m)" d])

lemma norm_day_next:
  "norm_day (y, m) (daysIn m y + 1) = (fst (next_month (y, m)), snd (next_month (y, m)), 1)"
proof -
  have "1 \<le> daysIn (snd (next_month (y, m))) (fst (next_month (y, m)))"
    by (simp add: daysIn_def)
  then have "norm_day (next_month (y, m)) 1 = (fst (next_month (y, m)), snd (next_month (y, m)), 1)"
    by (simp add: norm_day.simps [of "next_month (y, m)" 1])
  moreover have "28 \<le> daysIn m y" by (simp add: daysIn_def)
  ultimately show ?thesis
    by (simp add: norm_day.simps [of "(y, m)" "daysIn m y + 1"])
qed

lemma month_norm:
  assumes "1 \<le> Month t" "Month t \<le> 12"
  shows "norm_range (Year t) (Month t - 1) 12 = (Year t, Month t - 1)"
  using assms by (simp add: norm_range_def)


lemma civil_next_day:
  assumes "valid_fields t"
  shows "civil (Year t) (Month t) (Day t + 1) 0 0 0 0 off loc
           = (start_of_next_day t)\<lparr>Offset := off, Location := loc\<rparr>"
proof (cases "Day t = daysIn (Month t) (Year t)")
  case True
  have "norm_day (Year t, Month t) (Day t + 1) =
          (fst (next_month (Year t, Month t)), snd (next_month (Year t, Month t)), 1)"
    unfolding True by (rule norm_day_next)
  with True assms show ?thesis
    by (simp add: civil_def month_norm valid_fields_def norm_range_def start_of_next_day_def
        start_of_next_month_def next_month_def)
next
  case False
  with assms have "norm_day (Year t, Month t) (Day t + 1) = (Year t, Month t, Day t + 1)"
    by (intro norm_day_id) (simp_all add: valid_fields_def)
  with False assms show ?thesis
    by (simp add: civil_def month_norm valid_fields_def norm_range_def start_of_next_day_def)
qed

lemma civil_next_hour:
  assumes "valid_fields t"
  shows "civil (Year t) (Month t) (Day t) (Hour t + 1) 0 0 0 off loc
           = (start_of_next_hour t)\<lparr>Offset := off, Location := loc\<rparr>"
proof (cases "Hour t = 23")
  case True
  have "civil (Year t) (Month t) (Day t) 24 0 0 0 off loc
          = civil (Year t) (Month t) (Day t + 1) 0 0 0 0 off loc"
    by (simp add: civil_def norm_range_def)
  with True assms show ?thesis
    by (simp add: civil_next_day start_of_next_hour_def)
next
  case False
  with assms have h: "(Hour t + 1) div 24 = 0" "(Hour t + 1) mod 24 = Hour t + 1"
    by (simp_all add: valid_fields_def)
  from assms have "norm_day (Year t, Month t) (Day t) = (Year t, Month t, Day t)"
    by (intro norm_day_id) (simp_all add: valid_fields_def)
  with False assms h show ?thesis
    by (simp add: civil_def month_norm valid_fields_def norm_range_def start_of_next_hour_def)
qed

lemma civil_next_minute:
  assumes "valid_fields t"
  shows "civil (Year t) (Month t) (Day t) (Hour t) (Minute t + 1) 0 0 off loc
           = (start_of_next_minute t)\<lparr>Offset := off, Location := loc\<rparr>"
proof (cases "Minute t = 59")
  case True
  have "civil (Year t) (Month t) (Day t) (Hour t) 60 0 0 off loc
          = civil (Year t) (Month t) (Day t) (Hour t + 1) 0 0 0 off loc"
    by (simp add: civil_def norm_range_def)
  with True assms show ?thesis
    by (simp add: civil_next_hour start_of_next_minute_def)
next
  case False
  with assms have mi: "(Minute t + 1) div 60 = 0" "(Minute t + 1) mod 60 = Minute t + 1"
    by (simp_all add: valid_fields_def)
  from assms have h: "Hour t div 24 = 0" "Hour t mod 24 = Hour t"
    by (simp_all add: valid_fields_def)
  from assms have "norm_day (Year t, Month t) (Day t) = (Year t, Month t, Day t)"
    by (intro norm_day_id) (simp_all add: valid_fields_def)
  with False assms h mi show ?thesis
    by (simp add: civil_def month_norm valid_fields_def norm_range_def start_of_next_minute_def)
qed

lemma civil_id:
  assumes "valid_fields t"
  shows "civil (Year t) (Month t) (Day t) (Hour t) (Minute t) (Second t) (Nanosecond t) off loc
           = t\<lparr>Offset := off, Location := loc\<rparr>"
proof -
  from assms have n: "Nanosecond t div 1000000000 = 0" "Nanosecond t mod 1000000000 = Nanosecond t"
    and s: "Second t div 60 = 0" "Second t mod 60 = Second t"
    and mi: "Minute t div 60 = 0" "Minute t mod 60 = Minute t"
    and h: "Hour t div 24 = 0" "Hour t mod 24 = Hour t"
    by (simp_all add: valid_fields_def)
  from assms have "norm_day (Year t, Month t) (Day t) = (Year t, Month t, Day t)"
    by (intro norm_day_id) (simp_all add: valid_fields_def)
  with assms n s mi h show ?thesis
    by (simp add: civil_def month_norm valid_fields_def norm_range_def)
qed

lemma civil_offset:
  "civil y m d h mi s n off loc = (civil y m d h mi s n 0 loc)\<lparr>Offset := off\<rparr>"
  by (simp add: civil_def Let_def split: prod.splits)

section \<open>Lemmas: locations with one zone\<close>

lemma fixed_offset_at: "fixed_offset loc \<Longrightarrow> fst (loc u) = fst (loc 0)"
  by (simp add: fixed_offset_def)

lemma fixed_offset_UTC: "fixed_offset UTC"
  by (simp add: fixed_offset_def UTC_def)

text \<open>In a location with one zone \<^verbatim>\<open>time.Date\<close> is the normalisation of the fields.\<close>

lemma Date_fixed:
  assumes f: "fixed_offset loc" and v: "valid_fields (civil y m d h mi s n 0 loc)"
  shows "Date y m d h mi s n loc = civil y m d h mi s n (fst (loc 0)) loc"
proof -
  let ?w = "civil y m d h mi s n 0 loc"
  define unix where "unix = absSeconds ?w - unixEpoch"
  obtain offset start fin where l: "loc unix = (offset, start, fin)"
    by (cases "loc unix") auto
  from fixed_offset_at [OF f, of unix] l have o: "offset = fst (loc 0)" by simp
  define taken where "taken =
    (if offset \<noteq> 0 then
       (let utc = unix - offset in if utc < start \<or> fin \<le> utc then fst (loc utc) else offset)
     else 0)"
  have t: "taken = fst (loc 0)"
    using o fixed_offset_at [OF f, of "unix - offset"] by (simp add: taken_def Let_def)
  have "Date y m d h mi s n loc =
          civil (Year ?w) (Month ?w) (Day ?w) (Hour ?w) (Minute ?w)
            (Second ?w + (fst (loc (unix - taken)) - taken)) (Nanosecond ?w)
            (fst (loc (unix - taken))) loc"
    using l by (simp add: Date_def Let_def unix_def [symmetric] taken_def)
  also have "fst (loc (unix - taken)) = fst (loc 0)"
    by (rule fixed_offset_at [OF f])
  also have "Second ?w + (fst (loc 0) - taken) = Second ?w"
    by (simp add: t)
  also have "civil (Year ?w) (Month ?w) (Day ?w) (Hour ?w) (Minute ?w) (Second ?w)
               (Nanosecond ?w) (fst (loc 0)) loc
             = ?w\<lparr>Offset := fst (loc 0), Location := loc\<rparr>"
    by (rule civil_id [OF v])
  also have "\<dots> = civil y m d h mi s n (fst (loc 0)) loc"
    by (simp add: civil_offset [of y m d h mi s n "fst (loc 0)" loc])
       (simp add: civil_def Let_def split: prod.splits)
  finally show ?thesis .
qed

lemma valid_fields_next_month:
  assumes "valid_fields t"
  shows "valid_fields (start_of_next_month t)"
  using assms by (simp add: valid_fields_def start_of_next_month_def daysIn_def)

lemma valid_fields_next_day:
  assumes "valid_fields t"
  shows "valid_fields (start_of_next_day t)"
proof (cases "Day t = daysIn (Month t) (Year t)")
  case True
  with valid_fields_next_month [OF assms] show ?thesis by (simp add: start_of_next_day_def)
next
  case False
  with assms show ?thesis by (simp add: start_of_next_day_def valid_fields_def)
qed

lemma valid_fields_next_hour:
  assumes "valid_fields t"
  shows "valid_fields (start_of_next_hour t)"
proof (cases "Hour t = 23")
  case True
  with valid_fields_next_day [OF assms] show ?thesis by (simp add: start_of_next_hour_def)
next
  case False
  with assms show ?thesis by (simp add: start_of_next_hour_def valid_fields_def)
qed

lemma valid_fields_next_minute:
  assumes "valid_fields t"
  shows "valid_fields (start_of_next_minute t)"
proof (cases "Minute t = 59")
  case True
  with valid_fields_next_hour [OF assms] show ?thesis by (simp add: start_of_next_minute_def)
next
  case False
  with assms show ?thesis by (simp add: start_of_next_minute_def valid_fields_def)
qed

lemma valid_fields_zone: "valid_fields (t\<lparr>Offset := off, Location := loc\<rparr>) = valid_fields t"
  by (simp add: valid_fields_def)

lemma next_zone:
  "Offset (start_of_next_month t) = Offset t" "Location (start_of_next_month t) = Location t"
  "Offset (start_of_next_day t) = Offset t" "Location (start_of_next_day t) = Location t"
  "Offset (start_of_next_hour t) = Offset t" "Location (start_of_next_hour t) = Location t"
  "Offset (start_of_next_minute t) = Offset t" "Location (start_of_next_minute t) = Location t"
  by (simp_all add: start_of_next_minute_def start_of_next_hour_def start_of_next_day_def
      start_of_next_month_def)

lemma same_zone: "Offset r = off \<Longrightarrow> Location r = loc \<Longrightarrow> r\<lparr>Offset := off, Location := loc\<rparr> = r"
  by auto

lemma valid_time_offset:
  assumes "valid_time t" and "fixed_offset (Location t)"
  shows "fst (Location t 0) = Offset t"
  using assms fixed_offset_at [OF assms(2), of "Unix t"] by (simp add: valid_time_def)


lemma Date_next_day:
  assumes "valid_time t" and "fixed_offset (Location t)"
  shows "Date (Year t) (Month t) (Day t + 1) 0 0 0 0 (Location t) = start_of_next_day t"
proof -
  from assms(1) have v: "valid_fields t" by (simp add: valid_time_def)
  have "Date (Year t) (Month t) (Day t + 1) 0 0 0 0 (Location t)
          = civil (Year t) (Month t) (Day t + 1) 0 0 0 0 (fst (Location t 0)) (Location t)"
    by (rule Date_fixed [OF assms(2)])
       (simp add: civil_next_day [OF v] valid_fields_zone valid_fields_next_day [OF v])
  then show ?thesis
    by (simp add: civil_next_day [OF v] valid_time_offset [OF assms] same_zone next_zone)
qed

lemma Date_next_hour:
  assumes "valid_time t" and "fixed_offset (Location t)"
  shows "Date (Year t) (Month t) (Day t) (Hour t + 1) 0 0 0 (Location t) = start_of_next_hour t"
proof -
  from assms(1) have v: "valid_fields t" by (simp add: valid_time_def)
  have "Date (Year t) (Month t) (Day t) (Hour t + 1) 0 0 0 (Location t)
          = civil (Year t) (Month t) (Day t) (Hour t + 1) 0 0 0 (fst (Location t 0)) (Location t)"
    by (rule Date_fixed [OF assms(2)])
       (simp add: civil_next_hour [OF v] valid_fields_zone valid_fields_next_hour [OF v])
  then show ?thesis
    by (simp add: civil_next_hour [OF v] valid_time_offset [OF assms] same_zone next_zone)
qed

lemma Date_next_minute:
  assumes "valid_time t" and "fixed_offset (Location t)"
  shows "Date (Year t) (Month t) (Day t) (Hour t) (Minute t + 1) 0 0 (Location t)
           = start_of_next_minute t"
proof -
  from assms(1) have v: "valid_fields t" by (simp add: valid_time_def)
  have "Date (Year t) (Month t) (Day t) (Hour t) (Minute t + 1) 0 0 (Location t)
          = civil (Year t) (Month t) (Day t) (Hour t) (Minute t + 1) 0 0 (fst (Location t 0))
              (Location t)"
    by (rule Date_fixed [OF assms(2)])
       (simp add: civil_next_minute [OF v] valid_fields_zone valid_fields_next_minute [OF v])
  then show ?thesis
    by (simp add: civil_next_minute [OF v] valid_time_offset [OF assms] same_zone next_zone)
qed

lemma valid_time_fixed:
  assumes "valid_fields r" and "fixed_offset (Location r)" and "fst (Location r 0) = Offset r"
  shows "valid_time r"
  using assms fixed_offset_at [OF assms(2), of "Unix r"] by (simp add: valid_time_def)

lemma valid_next_month:
  assumes "valid_time t" and "fixed_offset (Location t)"
  shows "valid_time (start_of_next_month t)"
  using assms valid_time_offset [OF assms]
  by (intro valid_time_fixed) (simp_all add: next_zone valid_fields_next_month valid_time_def)




section \<open>Lemmas: decimal strings and bucket keys\<close>




lemma digits_of_small: "n < 10 \<Longrightarrow> digits_of n = [digit_char n]"
  by (subst digits_of.simps) simp

lemma digits_of_large: "10 \<le> n \<Longrightarrow> digits_of n = digits_of (n div 10) @ [digit_char (n mod 10)]"
  by (subst digits_of.simps) simp











section \<open>Lemmas: day numbers\<close>




section \<open>Lemmas: what a read returns\<close>

lemma client_Get_eq:
  "client_Get key w =
     (if fault w (trips w) then Inl ConnError else GET (db w) key, w\<lparr>trips := trips w + 1\<rparr>)"
  by (simp add: client_Get_def roundtrip_def)

lemma GetRateLimit_eq:
  "GetRateLimit apiKey win w =
     (if fault w (trips w) then Inl (Wrapped ''failed to get rate limit'' ConnError)
      else (case db w (''rate:'' @ apiKey @ '':'' @ win) of
              None \<Rightarrow> Inr 0
            | Some e \<Rightarrow>
                (case content e of
                   RSet ms \<Rightarrow> Inl (Wrapped ''failed to get rate limit'' WrongType)
                 | RString s \<Rightarrow>
                     (case Atoi s of
                        Inl err \<Rightarrow> Inl (Wrapped ''failed to parse rate limit count'' err)
                      | Inr n \<Rightarrow> Inr n))),
      w\<lparr>trips := trips w + 1\<rparr>)"
  by (simp add: GetRateLimit_def client_Get_eq GET_def split: option.splits rvalue.splits sum.splits)

lemma GetMonthlyQuota_eq:
  "GetMonthlyQuota now apiKey w =
     (if fault w (trips w) then Inl (Wrapped ''failed to get monthly quota'' ConnError)
      else (case db w (''quota:'' @ apiKey @ '':'' @ monthKey now) of
              None \<Rightarrow> Inr 0
            | Some e \<Rightarrow>
                (case content e of
                   RSet ms \<Rightarrow> Inl (Wrapped ''failed to get monthly quota'' WrongType)
                 | RString s \<Rightarrow>
                     (case Atoi s of
                        Inl err \<Rightarrow> Inl (Wrapped ''failed to parse monthly quota count'' err)
                      | Inr n \<Rightarrow> Inr n))),
      w\<lparr>trips := trips w + 1\<rparr>)"
  by (simp add: GetMonthlyQuota_def client_Get_eq GET_def split: option.splits rvalue.splits sum.splits)

lemma digit_char_eqI: "(of_char c :: nat) = 48 + d \<Longrightarrow> digit_char d = c"
proof -
  assume a: "(of_char c :: nat) = 48 + d"
  have "digit_char d = char_of (of_char c :: nat)" by (simp add: digit_char_def a)
  then show ?thesis by simp
qed

lemma digit_char_simps:
  "digit_char 0 = CHR ''0''" "digit_char (Suc 0) = CHR ''1''" "digit_char 2 = CHR ''2''"
  "digit_char 3 = CHR ''3''" "digit_char 4 = CHR ''4''" "digit_char 5 = CHR ''5''"
  "digit_char 6 = CHR ''6''" "digit_char 7 = CHR ''7''" "digit_char 8 = CHR ''8''"
  "digit_char 9 = CHR ''9''"
  by (rule digit_char_eqI, simp)+

lemma sample_keys:
  "monthKey sample_time = ''2024-01''"
  "getWindowKey sample_time time_Minute = ''2024-01-01-12-34''"
  "getWindowKey sample_time time_Hour = ''2024-01-01-12''"
  "getWindowKey sample_time time_Day = ''2024-01-01''"
  by (simp_all add: sample_time_def monthKey_def fmt_d_def fmt_02d_def digits_of_small
      digits_of_large digit_char_simps)

lemma sample_Atoi: "Atoi ''5'' = Inr 5" "Atoi ''6'' = Inr 6" "Atoi ''7'' = Inr 7"
  by (simp_all add: Atoi_def is_digit_def digit_val_def)

lemma sample_reads:
  "GetMonthlyQuota sample_time ''k1'' (sample_world\<lparr>fault := f\<rparr>) =
     (if f 0 then Inl (Wrapped ''failed to get monthly quota'' ConnError) else Inr 7,
      sample_world\<lparr>fault := f, trips := 1\<rparr>)"
  "GetRateLimit ''k1'' (getWindowKey sample_time time_Minute) (sample_world\<lparr>fault := f, trips := 1\<rparr>) =
     (if f 1 then Inl (Wrapped ''failed to get rate limit'' ConnError) else Inr 5,
      sample_world\<lparr>fault := f, trips := 2\<rparr>)"
  "GetRateLimit ''k1'' (getWindowKey sample_time time_Hour) (sample_world\<lparr>fault := f, trips := 2\<rparr>) =
     (if f 2 then Inl (Wrapped ''failed to get rate limit'' ConnError) else Inr 6,
      sample_world\<lparr>fault := f, trips := 3\<rparr>)"
  "GetRateLimit ''k1'' (getWindowKey sample_time time_Day) (sample_world\<lparr>fault := f, trips := 3\<rparr>) =
     (if f 3 then Inl (Wrapped ''failed to get rate limit'' ConnError) else Inr 7,
      sample_world\<lparr>fault := f, trips := 4\<rparr>)"
  unfolding sample_keys GetMonthlyQuota_eq GetRateLimit_eq
  by (simp_all add: sample_world_def sample_db_def counter_def sample_Atoi)



lemma sample_time_valid: "valid_time sample_time"
  by (simp add: valid_time_def valid_fields_def sample_time_def daysIn_def UTC_def)

lemma sample_time_fixed: "fixed_offset (Location sample_time)"
  by (simp add: sample_time_def fixed_offset_UTC)

section \<open>The admission check\<close>




lemma sample_reads_ok:
  "GetMonthlyQuota sample_time ''k1'' sample_world = (Inr 7, sample_world\<lparr>trips := 1\<rparr>)"
  "GetRateLimit ''k1'' (getWindowKey sample_time time_Minute) (sample_world\<lparr>trips := 1\<rparr>) =
     (Inr 5, sample_world\<lparr>trips := 2\<rparr>)"
  "GetRateLimit ''k1'' (getWindowKey sample_time time_Hour) (sample_world\<lparr>trips := 2\<rparr>) =
     (Inr 6, sample_world\<lparr>trips := 3\<rparr>)"
  "GetRateLimit ''k1'' (getWindowKey sample_time time_Day) (sample_world\<lparr>trips := 3\<rparr>) =
     (Inr 7, sample_world\<lparr>trips := 4\<rparr>)"
  using sample_reads [of "\<lambda>n. False"] by (simp_all add: sample_world_def)

lemma sample_resets:
  "start_of_next_minute sample_time =
     \<lparr>Year = 2024, Month = 1, Day = 1, Hour = 12, Minute = 35, Second = 0, Nanosecond = 0,
      Offset = 0, Location = UTC\<rparr>"
  "start_of_next_hour sample_time =
     \<lparr>Year = 2024, Month = 1, Day = 1, Hour = 13, Minute = 0, Second = 0, Nanosecond = 0,
      Offset = 0, Location = UTC\<rparr>"
  "start_of_next_day sample_time =
     \<lparr>Year = 2024, Month = 1, Day = 2, Hour = 0, Minute = 0, Second = 0, Nanosecond = 0,
      Offset = 0, Location = UTC\<rparr>"
  by (simp_all add: start_of_next_minute_def start_of_next_hour_def start_of_next_day_def
      daysIn_def sample_time_def)




lemma GetRateLimit_fault:
  "fault w (trips w) \<Longrightarrow>
     GetRateLimit apiKey win w =
       (Inl (Wrapped ''failed to get rate limit'' ConnError), w\<lparr>trips := trips w + 1\<rparr>)"
  by (simp add: GetRateLimit_eq)

lemma check_windows_allowed:
  "fst (check_windows config now apiKey used ws w) = Inr v \<Longrightarrow> Allowed v \<Longrightarrow> i < length ws
     \<Longrightarrow> \<not> fault w (trips w + i)"
proof (induction ws arbitrary: w i)
  case Nil
  then show ?case by simp
next
  case (Cons x rest)
  obtain name lim win where x: "x = (name, lim, win)" by (cases x)
  obtain r where g: "GetRateLimit apiKey (getWindowKey now win) w = (r, w\<lparr>trips := trips w + 1\<rparr>)"
    using GetRateLimit_world [of apiKey "getWindowKey now win" w]
    by (cases "GetRateLimit apiKey (getWindowKey now win) w") simp
  have here: "\<not> fault w (trips w)"
  proof
    assume "fault w (trips w)"
    from GetRateLimit_fault [OF this, of apiKey "getWindowKey now win"] Cons.prems(1)
    show False by (simp add: x)
  qed
  show ?case
  proof (cases i)
    case 0
    with here show ?thesis by simp
  next
    case (Suc j)
    from Cons.prems(1,2) g obtain cur where r: "r = Inr cur" and below: "\<not> lim \<le> cur"
      by (cases r) (auto simp: x split: if_splits)
    from Cons.prems(1) g r below
    have "fst (check_windows config now apiKey used rest (w\<lparr>trips := trips w + 1\<rparr>)) = Inr v"
      by (simp add: x)
    from Cons.IH [OF this Cons.prems(2), of j] Cons.prems(3) Suc show ?thesis by simp
  qed
qed

text \<open>
  Claim C6. If the monthly quota read or any window read that \<^verbatim>\<open>CheckRateLimit\<close> performs
  returns an error, \<^verbatim>\<open>CheckRateLimit\<close> returns that error (wrapped) and no verdict. In
  particular a verdict with \<open>Allowed = True\<close> is only ever returned when none of the four
  round trips failed.
\<close>

theorem C6_read_error_gives_error:
  "(GetMonthlyQuota qnow apiKey w = (Inl e, wq) \<longrightarrow>
      CheckRateLimit config now qnow apiKey w =
        (Inl (Wrapped ''failed to get monthly quota'' e), wq))
   \<and> (GetMonthlyQuota qnow apiKey w = (Inr used, wq) \<and> used < MonthlyQuota config
        \<and> GetRateLimit apiKey (getWindowKey now time_Minute) wq = (Inl e, wm) \<longrightarrow>
      CheckRateLimit config now qnow apiKey w =
        (Inl (Wrapped ''failed to get rate limit for minute window'' e), wm))
   \<and> (GetMonthlyQuota qnow apiKey w = (Inr used, wq) \<and> used < MonthlyQuota config
        \<and> GetRateLimit apiKey (getWindowKey now time_Minute) wq = (Inr cm, wm)
        \<and> cm < RequestsPerMinute config
        \<and> GetRateLimit apiKey (getWindowKey now time_Hour) wm = (Inl e, wh) \<longrightarrow>
      CheckRateLimit config now qnow apiKey w =
        (Inl (Wrapped ''failed to get rate limit for hour window'' e), wh))
   \<and> (GetMonthlyQuota qnow apiKey w = (Inr used, wq) \<and> used < MonthlyQuota config
        \<and> GetRateLimit apiKey (getWindowKey now time_Minute) wq = (Inr cm, wm)
        \<and> cm < RequestsPerMinute config
        \<and> GetRateLimit apiKey (getWindowKey now time_Hour) wm = (Inr ch, wh)
        \<and> ch < RequestsPerHour config
        \<and> GetRateLimit apiKey (getWindowKey now time_Day) wh = (Inl e, wd) \<longrightarrow>
      CheckRateLimit config now qnow apiKey w =
        (Inl (Wrapped ''failed to get rate limit for day window'' e), wd))
   \<and> (fst (CheckRateLimit config now qnow apiKey w) = Inr verdict \<and> Allowed verdict \<longrightarrow>
        \<not> fault w (trips w) \<and> \<not> fault w (trips w + 1) \<and> \<not> fault w (trips w + 2)
        \<and> \<not> fault w (trips w + 3))"
proof (intro conjI impI; (elim conjE)?)
  assume "GetMonthlyQuota qnow apiKey w = (Inl e, wq)"
  then show "CheckRateLimit config now qnow apiKey w =
        (Inl (Wrapped ''failed to get monthly quota'' e), wq)"
    by (simp add: CheckRateLimit_def)
next
  assume "GetMonthlyQuota qnow apiKey w = (Inr used, wq)" "used < MonthlyQuota config"
    "GetRateLimit apiKey (getWindowKey now time_Minute) wq = (Inl e, wm)"
  then show "CheckRateLimit config now qnow apiKey w =
        (Inl (Wrapped ''failed to get rate limit for minute window'' e), wm)"
    by (simp add: CheckRateLimit_def windows_def)
next
  assume "GetMonthlyQuota qnow apiKey w = (Inr used, wq)" "used < MonthlyQuota config"
    "GetRateLimit apiKey (getWindowKey now time_Minute) wq = (Inr cm, wm)"
    "cm < RequestsPerMinute config"
    "GetRateLimit apiKey (getWindowKey now time_Hour) wm = (Inl e, wh)"
  then show "CheckRateLimit config now qnow apiKey w =
        (Inl (Wrapped ''failed to get rate limit for hour window'' e), wh)"
    by (simp add: CheckRateLimit_def windows_def)
next
  assume "GetMonthlyQuota qnow apiKey w = (Inr used, wq)" "used < MonthlyQuota config"
    "GetRateLimit apiKey (getWindowKey now time_Minute) wq = (Inr cm, wm)"
    "cm < RequestsPerMinute config"
    "GetRateLimit apiKey (getWindowKey now time_Hour) wm = (Inr ch, wh)"
    "ch < RequestsPerHour config"
    "GetRateLimit apiKey (getWindowKey now time_Day) wh = (Inl e, wd)"
  then show "CheckRateLimit config now qnow apiKey w =
        (Inl (Wrapped ''failed to get rate limit for day window'' e), wd)"
    by (simp add: CheckRateLimit_def windows_def)
next
  assume v: "fst (CheckRateLimit config now qnow apiKey w) = Inr verdict" and a: "Allowed verdict"
  have first: "\<not> fault w (trips w)"
  proof
    assume "fault w (trips w)"
    with v show False by (simp add: CheckRateLimit_def GetMonthlyQuota_eq)
  qed
  obtain r where g: "GetMonthlyQuota qnow apiKey w = (r, w\<lparr>trips := trips w + 1\<rparr>)"
    using GetMonthlyQuota_world [of qnow apiKey w]
    by (cases "GetMonthlyQuota qnow apiKey w") simp
  from v a g obtain used where r: "r = Inr used" and below: "\<not> MonthlyQuota config \<le> used"
    by (cases r) (auto simp: CheckRateLimit_def split: if_splits)
  from v g r below
  have "fst (check_windows config now apiKey used (windows config) (w\<lparr>trips := trips w + 1\<rparr>))
          = Inr verdict"
    by (simp add: CheckRateLimit_def)
  from check_windows_allowed [OF this a, of 0] check_windows_allowed [OF this a, of 1]
    check_windows_allowed [OF this a, of 2] first
  have "\<not> fault w (trips w) \<and> \<not> fault w (trips w + 1) \<and> \<not> fault w (trips w + 2)
        \<and> \<not> fault w (trips w + 3)"
    by (simp add: windows_def numeral_3_eq_3 numeral_2_eq_2)
  then show "\<not> fault w (trips w)" "\<not> fault w (trips w + 1)" "\<not> fault w (trips w + 2)"
    "\<not> fault w (trips w + 3)" by simp_all
qed

lemma sample_check_allows:
  "CheckRateLimit (limits 6 100 1000 10000) sample_time sample_time ''k1'' sample_world =
     (Inr \<lparr>Allowed = True, Remaining = 6,
           ResetTime = Date 2024 1 1 12 35 0 0 UTC,
           Limit = 6, Window = ''minute'', QuotaUsed = 7, QuotaLimit = 10000\<rparr>,
      sample_world\<lparr>trips := 4\<rparr>)"
  using sample_reads_ok
  by (simp add: CheckRateLimit_def windows_def limits_def) (simp add: sample_time_def)

theorem C6_read_error_gives_error_witness:
  "CheckRateLimit (limits 6 100 1000 10000) sample_time sample_time ''k1''
       (sample_world\<lparr>fault := (\<lambda>n. n = 0)\<rparr>) =
     (Inl (Wrapped ''failed to get monthly quota''
            (Wrapped ''failed to get monthly quota'' ConnError)),
      sample_world\<lparr>fault := (\<lambda>n. n = 0), trips := 1\<rparr>)
   \<and> CheckRateLimit (limits 6 100 1000 10000) sample_time sample_time ''k1''
       (sample_world\<lparr>fault := (\<lambda>n. n = 1)\<rparr>) =
     (Inl (Wrapped ''failed to get rate limit for minute window'' store_down),
      sample_world\<lparr>fault := (\<lambda>n. n = 1), trips := 2\<rparr>)
   \<and> CheckRateLimit (limits 6 100 1000 10000) sample_time sample_time ''k1''
       (sample_world\<lparr>fault := (\<lambda>n. n = 2)\<rparr>) =
     (Inl (Wrapped ''failed to get rate limit for hour window'' store_down),
      sample_world\<lparr>fault := (\<lambda>n. n = 2), trips := 3\<rparr>)
   \<and> CheckRateLimit (limits 6 100 1000 10000) sample_time sample_time ''k1''
       (sample_world\<lparr>fault := (\<lambda>n. n = 3)\<rparr>) =
     (Inl (Wrapped ''failed to get rate limit for day window'' store_down),
      sample_world\<lparr>fault := (\<lambda>n. n = 3), trips := 4\<rparr>)
   \<and> \<not> fault sample_world 0 \<and> \<not> fault sample_world 1 \<and> \<not> fault sample_world 2
   \<and> \<not> fault sample_world 3"
proof -
  let ?c = "limits 6 100 1000 10000"
  note r0 = sample_reads [of "\<lambda>n. n = 0"] and r1 = sample_reads [of "\<lambda>n. n = 1"]
    and r2 = sample_reads [of "\<lambda>n. n = 2"] and r3 = sample_reads [of "\<lambda>n. n = 3"]
  have a: "CheckRateLimit ?c sample_time sample_time ''k1'' (sample_world\<lparr>fault := (\<lambda>n. n = 0)\<rparr>) =
     (Inl (Wrapped ''failed to get monthly quota''
            (Wrapped ''failed to get monthly quota'' ConnError)),
      sample_world\<lparr>fault := (\<lambda>n. n = 0), trips := 1\<rparr>)"
    using C6_read_error_gives_error [of sample_time "''k1''" "sample_world\<lparr>fault := (\<lambda>n. n = 0)\<rparr>"
        "Wrapped ''failed to get monthly quota'' ConnError"
        "sample_world\<lparr>fault := (\<lambda>n. n = 0), trips := 1\<rparr>" "?c" sample_time] r0(1)
    by simp
  have b: "CheckRateLimit ?c sample_time sample_time ''k1'' (sample_world\<lparr>fault := (\<lambda>n. n = 1)\<rparr>) =
     (Inl (Wrapped ''failed to get rate limit for minute window'' store_down),
      sample_world\<lparr>fault := (\<lambda>n. n = 1), trips := 2\<rparr>)"
    using C6_read_error_gives_error [of sample_time "''k1''" "sample_world\<lparr>fault := (\<lambda>n. n = 1)\<rparr>"
        store_down "sample_world\<lparr>fault := (\<lambda>n. n = 1), trips := 1\<rparr>" "?c" sample_time 7
        "sample_world\<lparr>fault := (\<lambda>n. n = 1), trips := 2\<rparr>"] r1(1,2)
    by (simp add: limits_def store_down_def)
  have c: "CheckRateLimit ?c sample_time sample_time ''k1'' (sample_world\<lparr>fault := (\<lambda>n. n = 2)\<rparr>) =
     (Inl (Wrapped ''failed to get rate limit for hour window'' store_down),
      sample_world\<lparr>fault := (\<lambda>n. n = 2), trips := 3\<rparr>)"
    using C6_read_error_gives_error [of sample_time "''k1''" "sample_world\<lparr>fault := (\<lambda>n. n = 2)\<rparr>"
        store_down "sample_world\<lparr>fault := (\<lambda>n. n = 2), trips := 1\<rparr>" "?c" sample_time 7
        "sample_world\<lparr>fault := (\<lambda>n. n = 2), trips := 2\<rparr>" 5
        "sample_world\<lparr>fault := (\<lambda>n. n = 2), trips := 3\<rparr>"] r2(1,2,3)
    by (simp add: limits_def store_down_def)
  have d: "CheckRateLimit ?c sample_time sample_time ''k1'' (sample_world\<lparr>fault := (\<lambda>n. n = 3)\<rparr>) =
     (Inl (Wrapped ''failed to get rate limit for day window'' store_down),
      sample_world\<lparr>fault := (\<lambda>n. n = 3), trips := 4\<rparr>)"
    using C6_read_error_gives_error [of sample_time "''k1''" "sample_world\<lparr>fault := (\<lambda>n. n = 3)\<rparr>"
        store_down "sample_world\<lparr>fault := (\<lambda>n. n = 3), trips := 1\<rparr>" "?c" sample_time 7
        "sample_world\<lparr>fault := (\<lambda>n. n = 3), trips := 2\<rparr>" 5
        "sample_world\<lparr>fault := (\<lambda>n. n = 3), trips := 3\<rparr>" 6
        "sample_world\<lparr>fault := (\<lambda>n. n = 3), trips := 4\<rparr>"] r3
    by (simp add: limits_def store_down_def)
  have e: "\<not> fault sample_world 0 \<and> \<not> fault sample_world 1 \<and> \<not> fault sample_world 2
   \<and> \<not> fault sample_world 3"
    using C6_read_error_gives_error [of sample_time "''k1''" sample_world _ _ "?c" sample_time _ _ _ _ _ _
        "\<lparr>Allowed = True, Remaining = 6, ResetTime = Date 2024 1 1 12 35 0 0 UTC,
           Limit = 6, Window = ''minute'', QuotaUsed = 7, QuotaLimit = 10000\<rparr>"]
      sample_check_allows
    by (simp add: sample_world_def)
  from a b c d e show ?thesis by blast
qed

section \<open>Read-only operations\<close>

text \<open>
  Claim C9. \<^verbatim>\<open>CheckRateLimit\<close> and \<^verbatim>\<open>GetRateLimitInfo\<close> leave the keyspace (counters and
  expiries) exactly as it was, in every execution. \<^verbatim>\<open>GetRateLimitInfo\<close> produces no
  verdict: whenever its four reads succeed it returns the report of used and limit for the
  quota and the three windows, whatever the counts are.
\<close>

theorem C9_check_and_info_are_read_only:
  "db (snd (CheckRateLimit config now qnow apiKey w)) = db w
   \<and> db (snd (GetRateLimitInfo config now qnow apiKey w)) = db w
   \<and> (GetMonthlyQuota qnow apiKey w = (Inr used, wq)
        \<and> GetRateLimit apiKey (getWindowKey now time_Minute) wq = (Inr cm, wm)
        \<and> GetRateLimit apiKey (getWindowKey now time_Hour) wm = (Inr ch, wh)
        \<and> GetRateLimit apiKey (getWindowKey now time_Day) wh = (Inr cd, wd) \<longrightarrow>
      GetRateLimitInfo config now qnow apiKey w =
        (Inr \<lparr>monthly_quota_used = used, monthly_quota_limit = MonthlyQuota config,
              rate_limits =
                [''minute'' \<mapsto> \<lparr>info_current = cm, info_limit = RequestsPerMinute config,
                   info_remaining = wrap_int64 (RequestsPerMinute config - cm),
                   info_reset_time = getWindowResetTime now time_Minute\<rparr>,
                 ''hour'' \<mapsto> \<lparr>info_current = ch, info_limit = RequestsPerHour config,
                   info_remaining = wrap_int64 (RequestsPerHour config - ch),
                   info_reset_time = getWindowResetTime now time_Hour\<rparr>,
                 ''day'' \<mapsto> \<lparr>info_current = cd, info_limit = RequestsPerDay config,
                   info_remaining = wrap_int64 (RequestsPerDay config - cd),
                   info_reset_time = getWindowResetTime now time_Day\<rparr>]\<rparr>, wd))"
  using CheckRateLimit_db [of config now qnow apiKey w]
    GetRateLimitInfo_db [of config now qnow apiKey w]
    GetRateLimitInfo_reports [of qnow apiKey w used wq now cm wm ch wh cd wd config]
  by blast

theorem C9_check_and_info_are_read_only_witness:
  "db (snd (CheckRateLimit sample_config sample_time sample_time ''k1'' sample_world)) = db sample_world
   \<and> db (snd (GetRateLimitInfo sample_config sample_time sample_time ''k1'' sample_world)) = db sample_world
   \<and> GetRateLimitInfo sample_config sample_time sample_time ''k1'' sample_world =
        (Inr \<lparr>monthly_quota_used = 7, monthly_quota_limit = 10000,
              rate_limits =
                [''minute'' \<mapsto> \<lparr>info_current = 5, info_limit = 2, info_remaining = - 3,
                   info_reset_time = \<lparr>Year = 2024, Month = 1, Day = 1, Hour = 12, Minute = 35,
                     Second = 0, Nanosecond = 0, Offset = 0, Location = UTC\<rparr>\<rparr>,
                 ''hour'' \<mapsto> \<lparr>info_current = 6, info_limit = 100, info_remaining = 94,
                   info_reset_time = \<lparr>Year = 2024, Month = 1, Day = 1, Hour = 13, Minute = 0,
                     Second = 0, Nanosecond = 0, Offset = 0, Location = UTC\<rparr>\<rparr>,
                 ''day'' \<mapsto> \<lparr>info_current = 7, info_limit = 1000, info_remaining = 993,
                   info_reset_time = \<lparr>Year = 2024, Month = 1, Day = 2, Hour = 0, Minute = 0,
                     Second = 0, Nanosecond = 0, Offset = 0, Location = UTC\<rparr>\<rparr>]\<rparr>,
         sample_world\<lparr>trips := 4\<rparr>)"
proof -
  note v = sample_time_valid and f = sample_time_fixed
  have resets: "getWindowResetTime sample_time time_Minute = start_of_next_minute sample_time"
    "getWindowResetTime sample_time time_Hour = start_of_next_hour sample_time"
    "getWindowResetTime sample_time time_Day = start_of_next_day sample_time"
    by (simp_all add: Date_next_minute [OF v f] Date_next_hour [OF v f] Date_next_day [OF v f])
  have "db (snd (CheckRateLimit sample_config sample_time sample_time ''k1'' sample_world))
          = db sample_world
     \<and> db (snd (GetRateLimitInfo sample_config sample_time sample_time ''k1'' sample_world))
          = db sample_world
     \<and> GetRateLimitInfo sample_config sample_time sample_time ''k1'' sample_world =
        (Inr \<lparr>monthly_quota_used = 7, monthly_quota_limit = MonthlyQuota sample_config,
              rate_limits =
                [''minute'' \<mapsto> \<lparr>info_current = 5, info_limit = RequestsPerMinute sample_config,
                   info_remaining = wrap_int64 (RequestsPerMinute sample_config - 5),
                   info_reset_time = getWindowResetTime sample_time time_Minute\<rparr>,
                 ''hour'' \<mapsto> \<lparr>info_current = 6, info_limit = RequestsPerHour sample_config,
                   info_remaining = wrap_int64 (RequestsPerHour sample_config - 6),
                   info_reset_time = getWindowResetTime sample_time time_Hour\<rparr>,
                 ''day'' \<mapsto> \<lparr>info_current = 7, info_limit = RequestsPerDay sample_config,
                   info_remaining = wrap_int64 (RequestsPerDay sample_config - 7),
                   info_reset_time = getWindowResetTime sample_time time_Day\<rparr>]\<rparr>,
         sample_world\<lparr>trips := 4\<rparr>)"
    using C9_check_and_info_are_read_only [of sample_config sample_time sample_time "''k1''"
        sample_world 7 "sample_world\<lparr>trips := 1\<rparr>" 5 "sample_world\<lparr>trips := 2\<rparr>" 6
        "sample_world\<lparr>trips := 3\<rparr>" 7 "sample_world\<lparr>trips := 4\<rparr>"] sample_reads_ok
    by blast
  then show ?thesis
    unfolding resets sample_resets
    by (simp add: sample_config_def wrap_int64_def)
qed

section \<open>Authentication\<close>

text \<open>
  Claim C10. \<^verbatim>\<open>ValidateAPIKey\<close> returns \<^verbatim>\<open>(false, nil)\<close> for the empty string and
  \<^verbatim>\<open>(true, nil)\<close> for every other string; it never returns an error and makes no round
  trip to the store (the world is returned unchanged), so the stored set of valid keys is
  not consulted: \<^verbatim>\<open>Authenticate\<close> lets every non-empty key through, also one that has
  just been removed from that set.
\<close>

theorem C10_any_nonempty_key_is_accepted:
  "ValidateAPIKey [] w = (Inr False, w)
   \<and> ValidateAPIKey (c # cs) w = (Inr True, w)
   \<and> Authenticate [] w = (Abort 401 ''API key is required'' ''MISSING_API_KEY'', w)
   \<and> Authenticate (c # cs) w = (Next (c # cs), w)
   \<and> fst (Authenticate (c # cs) (snd (RemoveValidAPIKey (c # cs) w))) = Next (c # cs)"
  by (simp add: ValidateAPIKey_def Authenticate_def)

section \<open>Reads of absent and malformed counters\<close>

lemma is_digit_iff: "is_digit c \<longleftrightarrow> c \<in> set ''0123456789''"
proof
  assume a: "is_digit c"
  define d where "d = (of_char c :: nat) - 48"
  from a have d: "d < 10" and c: "(of_char c :: nat) = 48 + d"
    by (auto simp: is_digit_def d_def)
  from digit_char_eqI [OF c] have "c = digit_char d" by simp
  moreover from d have "d = 0 \<or> d = Suc 0 \<or> d = 2 \<or> d = 3 \<or> d = 4 \<or> d = 5 \<or> d = 6 \<or> d = 7
      \<or> d = 8 \<or> d = 9" by arith
  ultimately show "c \<in> set ''0123456789''"
    by (elim disjE) (simp_all add: digit_char_simps)
next
  assume "c \<in> set ''0123456789''"
  then show "is_digit c" by (auto simp: is_digit_def)
qed

lemma decimal_digits_iff: "decimal_digits ds \<longleftrightarrow> ds \<noteq> [] \<and> list_all is_digit ds"
proof -
  have "set ds \<subseteq> set ''0123456789'' \<longleftrightarrow> list_all is_digit ds"
    unfolding list_all_iff using is_digit_iff by blast
  then show ?thesis by (simp only: decimal_digits_def)
qed

lemma fast_loop_digits: "fast_loop n s = Inr v \<Longrightarrow> list_all is_digit s"
  by (induction s arbitrary: n) (auto split: if_splits)

lemma ParseUint_loop_digits: "ParseUint_loop n s = Inr v \<Longrightarrow> list_all is_digit s"
  by (induction s arbitrary: n) (auto split: if_splits)

lemma fast_loop_error: "fast_loop n s = Inl err \<Longrightarrow> err = ErrSyntax"
  by (induction s arbitrary: n) (auto split: if_splits)

lemma ParseUint_loop_error: "ParseUint_loop n s = Inl err \<Longrightarrow> err = ErrSyntax \<or> err = ErrRange"
  by (induction s arbitrary: n) (auto split: if_splits)

lemma ParseInt_literal: "ParseInt s = Inr n \<Longrightarrow> integer_literal s"
proof (cases s)
  case Nil
  assume "ParseInt s = Inr n"
  with Nil show ?thesis by (simp add: ParseInt_def)
next
  case (Cons c cs)
  assume r: "ParseInt s = Inr n"
  let ?body = "if c = CHR ''+'' \<or> c = CHR ''-'' then cs else c # cs"
  from r Cons obtain un where un: "ParseUint ?body = Inr un"
    by (cases "ParseUint ?body") (simp_all add: ParseInt_def Let_def)
  then have "?body \<noteq> []" and "list_all is_digit ?body"
    by (auto simp: ParseUint_def dest: ParseUint_loop_digits split: if_splits)
  then have "decimal_digits ?body" by (simp add: decimal_digits_iff)
  with Cons show ?thesis by (auto simp: integer_literal_def split: if_splits)
qed

lemma ParseInt_error: "ParseInt s = Inl err \<Longrightarrow> err = ErrSyntax \<or> err = ErrRange"
proof (cases s)
  case Nil
  assume "ParseInt s = Inl err"
  with Nil show ?thesis by (simp add: ParseInt_def)
next
  case (Cons c cs)
  assume r: "ParseInt s = Inl err"
  let ?body = "if c = CHR ''+'' \<or> c = CHR ''-'' then cs else c # cs"
  show ?thesis
  proof (cases "ParseUint ?body")
    case (Inl e)
    with r Cons have "err = e" by (simp add: ParseInt_def Let_def)
    with Inl show ?thesis
      by (auto simp: ParseUint_def dest: ParseUint_loop_error split: if_splits)
  next
    case (Inr un)
    with r Cons show ?thesis by (simp add: ParseInt_def Let_def split: if_splits)
  qed
qed

lemma Atoi_literal: "Atoi s = Inr n \<Longrightarrow> integer_literal s"
proof (cases s)
  case Nil
  assume "Atoi s = Inr n"
  with Nil show ?thesis by (simp add: Atoi_def ParseInt_def)
next
  case (Cons c cs)
  assume r: "Atoi s = Inr n"
  show ?thesis
  proof (cases "length s < 19")
    case False
    with r Cons have "ParseInt s = Inr n" by (simp add: Atoi_def)
    then show ?thesis by (rule ParseInt_literal)
  next
    case True
    let ?body = "if c = CHR ''-'' \<or> c = CHR ''+'' then cs else c # cs"
    from r Cons True have ne: "?body \<noteq> []"
      by (auto simp: Atoi_def Let_def split: if_splits)
    from r Cons True ne obtain v where "fast_loop 0 ?body = Inr v"
      by (cases "fast_loop 0 ?body") (simp_all add: Atoi_def Let_def split: if_splits)
    then have "list_all is_digit ?body" by (rule fast_loop_digits)
    with ne have "decimal_digits ?body" by (simp add: decimal_digits_iff)
    with Cons show ?thesis by (auto simp: integer_literal_def split: if_splits)
  qed
qed

lemma Atoi_error: "Atoi s = Inl err \<Longrightarrow> err = ErrSyntax \<or> err = ErrRange"
proof (cases s)
  case Nil
  assume "Atoi s = Inl err"
  with Nil show ?thesis by (simp add: Atoi_def ParseInt_def)
next
  case (Cons c cs)
  assume r: "Atoi s = Inl err"
  show ?thesis
  proof (cases "length s < 19")
    case False
    with r Cons have "ParseInt s = Inl err" by (simp add: Atoi_def)
    then show ?thesis by (rule ParseInt_error)
  next
    case True
    let ?body = "if c = CHR ''-'' \<or> c = CHR ''+'' then cs else c # cs"
    show ?thesis
    proof (cases "?body = []")
      case e: True
      with r Cons True show ?thesis by (simp add: Atoi_def Let_def split: if_splits)
    next
      case ne: False
      show ?thesis
      proof (cases "fast_loop 0 ?body")
        case (Inl e)
        with r Cons True ne have "err = e" by (simp add: Atoi_def Let_def split: if_splits)
        with fast_loop_error [OF Inl] show ?thesis by simp
      next
        case (Inr v)
        with r Cons True ne show ?thesis by (simp add: Atoi_def Let_def split: if_splits)
      qed
    qed
  qed
qed

lemma Atoi_not_literal:
  assumes "\<not> integer_literal s"
  shows "\<exists>err. Atoi s = Inl err \<and> (err = ErrSyntax \<or> err = ErrRange)"
proof (cases "Atoi s")
  case (Inl err)
  with Atoi_error [OF Inl] show ?thesis by simp
next
  case (Inr n)
  from Atoi_literal [OF Inr] assms show ?thesis by simp
qed

text \<open>
  Claim C8. With the store reachable, \<^verbatim>\<open>GetRateLimit\<close> and \<^verbatim>\<open>GetMonthlyQuota\<close> return 0
  and no error for a key that does not exist, and return a parse error (the syntax or the
  range error of \<^verbatim>\<open>strconv.Atoi\<close>, wrapped) for a key whose stored string is not an
  integer literal (an optional sign followed by one or more decimal digits); a count is
  only ever returned for an integer literal, and it is the number that literal denotes.
\<close>

theorem C8_absent_reads_zero_malformed_is_error:
  assumes "\<not> fault w (trips w)"
  shows "(db w (''rate:'' @ apiKey @ '':'' @ bucket) = None \<longrightarrow>
            fst (GetRateLimit apiKey bucket w) = Inr 0)
       \<and> (db w (''quota:'' @ apiKey @ '':'' @ monthKey now) = None \<longrightarrow>
            fst (GetMonthlyQuota now apiKey w) = Inr 0)
       \<and> (db w (''rate:'' @ apiKey @ '':'' @ bucket) = Some e \<and> content e = RString s
            \<and> \<not> integer_literal s \<longrightarrow>
            fst (GetRateLimit apiKey bucket w) =
              Inl (Wrapped ''failed to parse rate limit count'' ErrSyntax)
            \<or> fst (GetRateLimit apiKey bucket w) =
              Inl (Wrapped ''failed to parse rate limit count'' ErrRange))
       \<and> (db w (''quota:'' @ apiKey @ '':'' @ monthKey now) = Some e \<and> content e = RString s
            \<and> \<not> integer_literal s \<longrightarrow>
            fst (GetMonthlyQuota now apiKey w) =
              Inl (Wrapped ''failed to parse monthly quota count'' ErrSyntax)
            \<or> fst (GetMonthlyQuota now apiKey w) =
              Inl (Wrapped ''failed to parse monthly quota count'' ErrRange))
       \<and> (db w (''rate:'' @ apiKey @ '':'' @ bucket) = Some e \<and> content e = RString s
            \<and> fst (GetRateLimit apiKey bucket w) = Inr n \<longrightarrow>
            integer_literal s \<and> Atoi s = Inr n)
       \<and> (db w (''quota:'' @ apiKey @ '':'' @ monthKey now) = Some e \<and> content e = RString s
            \<and> fst (GetMonthlyQuota now apiKey w) = Inr n \<longrightarrow>
            integer_literal s \<and> Atoi s = Inr n)"
proof (intro conjI impI; (elim conjE)?)
  assume "db w (''rate:'' @ apiKey @ '':'' @ bucket) = None"
  with assms show "fst (GetRateLimit apiKey bucket w) = Inr 0"
    by (simp add: GetRateLimit_eq)
next
  assume "db w (''quota:'' @ apiKey @ '':'' @ monthKey now) = None"
  with assms show "fst (GetMonthlyQuota now apiKey w) = Inr 0"
    by (simp add: GetMonthlyQuota_eq)
next
  assume "db w (''rate:'' @ apiKey @ '':'' @ bucket) = Some e" "content e = RString s"
    "\<not> integer_literal s"
  with assms Atoi_not_literal [of s]
  show "fst (GetRateLimit apiKey bucket w) =
      Inl (Wrapped ''failed to parse rate limit count'' ErrSyntax)
    \<or> fst (GetRateLimit apiKey bucket w) =
      Inl (Wrapped ''failed to parse rate limit count'' ErrRange)"
    by (auto simp: GetRateLimit_eq)
next
  assume "db w (''quota:'' @ apiKey @ '':'' @ monthKey now) = Some e" "content e = RString s"
    "\<not> integer_literal s"
  with assms Atoi_not_literal [of s]
  show "fst (GetMonthlyQuota now apiKey w) =
      Inl (Wrapped ''failed to parse monthly quota count'' ErrSyntax)
    \<or> fst (GetMonthlyQuota now apiKey w) =
      Inl (Wrapped ''failed to parse monthly quota count'' ErrRange)"
    by (auto simp: GetMonthlyQuota_eq)
next
  assume "db w (''rate:'' @ apiKey @ '':'' @ bucket) = Some e" "content e = RString s"
    "fst (GetRateLimit apiKey bucket w) = Inr n"
  with assms have a: "Atoi s = Inr n"
    by (cases "Atoi s") (simp_all add: GetRateLimit_eq)
  from a show "Atoi s = Inr n" .
  from a show "integer_literal s" by (rule Atoi_literal)
next
  assume "db w (''quota:'' @ apiKey @ '':'' @ monthKey now) = Some e" "content e = RString s"
    "fst (GetMonthlyQuota now apiKey w) = Inr n"
  with assms have a: "Atoi s = Inr n"
    by (cases "Atoi s") (simp_all add: GetMonthlyQuota_eq)
  from a show "Atoi s = Inr n" .
  from a show "integer_literal s" by (rule Atoi_literal)
qed

theorem C8_absent_reads_zero_malformed_is_error_witness:
  "fst (GetRateLimit ''k2'' ''2024-01-01-12-34'' sample_world) = Inr 0
   \<and> fst (GetMonthlyQuota sample_time ''k2'' sample_world) = Inr 0
   \<and> fst (GetRateLimit ''k1'' ''2024-01-01-12-34'' corrupt_world) =
         Inl (Wrapped ''failed to parse rate limit count'' ErrSyntax)
   \<and> fst (GetMonthlyQuota sample_time ''k1'' corrupt_world) =
         Inl (Wrapped ''failed to parse monthly quota count'' ErrRange)
   \<and> integer_literal ''5''"
proof -
  have up: "\<not> fault sample_world (trips sample_world)" "\<not> fault corrupt_world (trips corrupt_world)"
    by (simp_all add: sample_world_def corrupt_world_def)
  have absent: "db sample_world (''rate:'' @ ''k2'' @ '':'' @ ''2024-01-01-12-34'') = None"
    "db sample_world (''quota:'' @ ''k2'' @ '':'' @ monthKey sample_time) = None"
    by (simp_all add: sample_world_def sample_db_def sample_keys)
  have stored: "db corrupt_world (''rate:'' @ ''k1'' @ '':'' @ ''2024-01-01-12-34'') = Some (counter ''12x'')"
    "db corrupt_world (''quota:'' @ ''k1'' @ '':'' @ monthKey sample_time) = Some (counter ''99999999999999999999x'')"
    "db sample_world (''rate:'' @ ''k1'' @ '':'' @ ''2024-01-01-12-34'') = Some (counter ''5'')"
    by (simp_all add: corrupt_world_def sample_world_def sample_db_def sample_keys)
  have bad: "\<not> integer_literal ''12x''" "\<not> integer_literal ''99999999999999999999x''"
    by (simp_all add: integer_literal_def decimal_digits_def)
  have parse: "Atoi ''12x'' = Inl ErrSyntax" "Atoi ''99999999999999999999x'' = Inl ErrRange"
    by (simp_all add: Atoi_def ParseInt_def ParseUint_def is_digit_def digit_val_def maxUint64_def)
  have reads: "fst (GetRateLimit ''k1'' ''2024-01-01-12-34'' corrupt_world) =
      Inl (Wrapped ''failed to parse rate limit count'' ErrSyntax)"
    "fst (GetMonthlyQuota sample_time ''k1'' corrupt_world) =
      Inl (Wrapped ''failed to parse monthly quota count'' ErrRange)"
    using stored(1,2) up(2)
    by (simp_all add: GetRateLimit_eq GetMonthlyQuota_eq counter_def parse)
  have five: "fst (GetRateLimit ''k1'' ''2024-01-01-12-34'' sample_world) = Inr 5"
    using sample_reads_ok(2) GetRateLimit_eq [of "''k1''" "''2024-01-01-12-34''" sample_world]
      stored(3) up(1)
    by (simp add: counter_def sample_Atoi)
  note a = C8_absent_reads_zero_malformed_is_error [OF up(1), of "''k2''" "''2024-01-01-12-34''"
      sample_time]
  note b = C8_absent_reads_zero_malformed_is_error [OF up(2), of "''k1''" "''2024-01-01-12-34''"
      sample_time "counter ''12x''" "''12x''"]
  note c = C8_absent_reads_zero_malformed_is_error [OF up(2), of "''k1''" "''2024-01-01-12-34''"
      sample_time "counter ''99999999999999999999x''" "''seven''"]
  note d = C8_absent_reads_zero_malformed_is_error [OF up(1), of "''k1''" "''2024-01-01-12-34''"
      sample_time "counter ''5''" "''5''" 5]
  from a absent have "fst (GetRateLimit ''k2'' ''2024-01-01-12-34'' sample_world) = Inr 0"
    "fst (GetMonthlyQuota sample_time ''k2'' sample_world) = Inr 0" by blast+
  moreover from b stored(1) bad(1) reads(1)
  have "fst (GetRateLimit ''k1'' ''2024-01-01-12-34'' corrupt_world) =
         Inl (Wrapped ''failed to parse rate limit count'' ErrSyntax)"
    by (simp add: counter_def)
  moreover from c stored(2) bad(2) reads(2)
  have "fst (GetMonthlyQuota sample_time ''k1'' corrupt_world) =
         Inl (Wrapped ''failed to parse monthly quota count'' ErrRange)"
    by (simp add: counter_def)
  moreover from d stored(3) five have "integer_literal ''5''"
    by (simp add: counter_def)
  ultimately show ?thesis by blast
qed

section \<open>Bucket keys and reset times\<close>











lemma reset_is_calendar_successor:
  assumes "valid_time t" and "fixed_offset (Location t)"
  shows "getWindowResetTime t time_Minute = start_of_next_minute t"
    "getWindowResetTime t time_Hour = start_of_next_hour t"
    "getWindowResetTime t time_Day = start_of_next_day t"
  by (simp_all add: Date_next_minute [OF assms] Date_next_hour [OF assms] Date_next_day [OF assms])









section \<open>The commit\<close>

lemma INCR_frame: "key' \<noteq> key \<Longrightarrow> snd (INCR d key) key' = d key'"
  by (simp add: INCR_def split: option.splits rvalue.splits)

lemma EXPIRE_frame: "key' \<noteq> key \<Longrightarrow> EXPIRE d key dur key' = d key'"
  by (simp add: EXPIRE_def split: option.splits)

lemma INCR_value:
  "fst (INCR d key) = Inr v \<Longrightarrow>
     \<exists>e. snd (INCR d key) key = Some e \<and> content e = RString (fmt_d v)"
proof -
  have one: "fmt_d 1 = ''1''"
    by (simp add: fmt_d_def digits_of_small digit_char_simps)
  assume "fst (INCR d key) = Inr v"
  then show ?thesis
    by (auto simp: INCR_def one split: option.splits rvalue.splits if_splits)
qed

lemma EXPIRE_value:
  "d key = Some e \<Longrightarrow> 0 < dur \<Longrightarrow> EXPIRE d key dur key = Some (e\<lparr>ttl := Some dur\<rparr>)"
  by (simp add: EXPIRE_def)

lemma client_IncrExpire_eq:
  "client_IncrExpire key dur w =
     (if fault w (trips w) then (Inl ConnError, w\<lparr>trips := trips w + 1\<rparr>)
      else (fst (INCR (db w) key),
            w\<lparr>trips := trips w + 1, db := EXPIRE (snd (INCR (db w) key)) key dur\<rparr>))"
  by (simp add: client_IncrExpire_def roundtrip_def split: prod.splits)

lemma client_IncrExpire_step:
  assumes "client_IncrExpire key dur w = (r, w')"
  shows "trips w' = trips w + 1"
    and "key' \<noteq> key \<Longrightarrow> db w' key' = db w key'"
    and "r = Inr v \<Longrightarrow> 0 < dur \<Longrightarrow>
           \<exists>e. db w' key = Some e \<and> content e = RString (fmt_d v) \<and> ttl e = Some dur"
proof -
  from assms show "trips w' = trips w + 1"
    by (auto simp: client_IncrExpire_eq split: if_splits)
  from assms show "key' \<noteq> key \<Longrightarrow> db w' key' = db w key'"
    by (auto simp: client_IncrExpire_eq INCR_frame EXPIRE_frame split: if_splits)
  assume r: "r = Inr v" and dur: "0 < dur"
  with assms have up: "\<not> fault w (trips w)" and v: "fst (INCR (db w) key) = Inr v"
    and w': "db w' = EXPIRE (snd (INCR (db w) key)) key dur"
    by (auto simp: client_IncrExpire_eq split: if_splits)
  from INCR_value [OF v] obtain e where e: "snd (INCR (db w) key) key = Some e"
    "content e = RString (fmt_d v)" by blast
  from EXPIRE_value [of "snd (INCR (db w) key)" key e dur, OF e(1) dur] e(2) w'
  show "\<exists>e. db w' key = Some e \<and> content e = RString (fmt_d v) \<and> ttl e = Some dur"
    by simp
qed


lemma GET_same: "d key = d' key \<Longrightarrow> GET d key = GET d' key"
  by (simp add: GET_def)

lemma nanos_Hour_pos: "0 < nanos_Hour"
  by (simp add: nanos_Hour_def nanos_Minute_def)

lemma RedisClient_IncrementRateLimit_step:
  assumes "RedisClient_IncrementRateLimit apiKey bucket lim w = (r, w')"
  shows "trips w' = trips w + 1"
    and "key' \<noteq> rate_key apiKey bucket \<Longrightarrow> db w' key' = db w key'"
    and "r = Inr v \<Longrightarrow>
           \<exists>e. db w' (rate_key apiKey bucket) = Some e \<and> content e = RString (fmt_d v)
               \<and> ttl e = Some nanos_Hour"
proof -
  obtain r0 where c: "client_IncrExpire (rate_key apiKey bucket) nanos_Hour w = (r0, w')"
    and r: "r = (case r0 of Inl err \<Rightarrow> Inl (Wrapped ''failed to increment rate limit'' err)
                  | Inr cur \<Rightarrow> Inr cur)"
    using assms
    by (cases "client_IncrExpire (rate_key apiKey bucket) nanos_Hour w")
      (auto simp: RedisClient_IncrementRateLimit_def split: sum.splits)
  note s = client_IncrExpire_step [OF c]
  show "trips w' = trips w + 1" by (rule s(1))
  show "key' \<noteq> rate_key apiKey bucket \<Longrightarrow> db w' key' = db w key'" by (rule s(2))
  assume "r = Inr v"
  with r have "r0 = Inr v" by (cases r0) simp_all
  from s(3) [OF this nanos_Hour_pos]
  show "\<exists>e. db w' (rate_key apiKey bucket) = Some e \<and> content e = RString (fmt_d v)
               \<and> ttl e = Some nanos_Hour" .
qed





lemma IncrementMonthlyQuota_step:
  assumes "IncrementMonthlyQuota now apiKey quota w = (r, w')"
  shows "trips w' = trips w + 1"
    and "key' \<noteq> quota_key apiKey now \<Longrightarrow> db w' key' = db w key'"
    and "r = Inr v \<Longrightarrow>
         0 < Sub (Date (Year now) (Month now + 1) 1 0 0 0 0 (Location now)) now \<Longrightarrow>
           \<exists>e. db w' (quota_key apiKey now) = Some e \<and> content e = RString (fmt_d v)
               \<and> ttl e = Some (Sub (Date (Year now) (Month now + 1) 1 0 0 0 0 (Location now)) now)"
proof -
  let ?dur = "Sub (Date (Year now) (Month now + 1) 1 0 0 0 0 (Location now)) now"
  obtain r0 where c: "client_IncrExpire (quota_key apiKey now) ?dur w = (r0, w')"
    and r: "r = (case r0 of Inl err \<Rightarrow> Inl (Wrapped ''failed to increment monthly quota'' err)
                  | Inr cur \<Rightarrow> Inr cur)"
    using assms
    by (cases "client_IncrExpire (quota_key apiKey now) ?dur w")
      (auto simp: IncrementMonthlyQuota_def Let_def split: sum.splits)
  note s = client_IncrExpire_step [OF c]
  show "trips w' = trips w + 1" by (rule s(1))
  show "key' \<noteq> quota_key apiKey now \<Longrightarrow> db w' key' = db w key'" by (rule s(2))
  assume "r = Inr v" and pos: "0 < ?dur"
  with r have "r0 = Inr v" by (cases r0) simp_all
  from s(3) [OF this pos]
  show "\<exists>e. db w' (quota_key apiKey now) = Some e \<and> content e = RString (fmt_d v)
               \<and> ttl e = Some ?dur" .
qed

lemma keys_distinct:
  "quota_key apiKey qnow \<noteq> rate_key apiKey bucket"
  "rate_key apiKey (getWindowKey now time_Minute) \<noteq> rate_key apiKey (getWindowKey now time_Hour)"
  "rate_key apiKey (getWindowKey now time_Minute) \<noteq> rate_key apiKey (getWindowKey now time_Day)"
  "rate_key apiKey (getWindowKey now time_Hour) \<noteq> rate_key apiKey (getWindowKey now time_Day)"
  by simp_all


lemma client_IncrExpire_fault: "fault (snd (client_IncrExpire key dur w)) = fault w"
  by (simp add: client_IncrExpire_eq)

lemma client_IncrExpire_result:
  "db w key = None \<Longrightarrow>
     fst (client_IncrExpire key dur w) = (if fault w (trips w) then Inl ConnError else Inr 1)"
  by (simp add: client_IncrExpire_eq INCR_def)

lemma RedisClient_IncrementRateLimit_fresh:
  assumes "db w (rate_key apiKey bucket) = None"
  shows "fst (RedisClient_IncrementRateLimit apiKey bucket lim w) =
           (if fault w (trips w) then Inl (Wrapped ''failed to increment rate limit'' ConnError)
            else Inr 1)"
    and "fault (snd (RedisClient_IncrementRateLimit apiKey bucket lim w)) = fault w"
  using client_IncrExpire_result [OF assms, of nanos_Hour]
    client_IncrExpire_fault [of "rate_key apiKey bucket" nanos_Hour w]
  by (auto simp: RedisClient_IncrementRateLimit_def split: prod.splits sum.splits if_splits)

lemma IncrementMonthlyQuota_fresh:
  assumes "db w (quota_key apiKey now) = None"
  shows "fst (IncrementMonthlyQuota now apiKey quota w) =
           (if fault w (trips w) then Inl (Wrapped ''failed to increment monthly quota'' ConnError)
            else Inr 1)"
    and "fault (snd (IncrementMonthlyQuota now apiKey quota w)) = fault w"
  using client_IncrExpire_result [OF assms, of "Sub (Date (Year now) (Month now + 1) 1 0 0 0 0 (Location now)) now"]
    client_IncrExpire_fault [of "quota_key apiKey now"
      "Sub (Date (Year now) (Month now + 1) 1 0 0 0 0 (Location now)) now" w]
  by (auto simp: IncrementMonthlyQuota_def Let_def split: prod.splits sum.splits if_splits)

lemma fresh_trace:
  "IncrementMonthlyQuota sample_time ''k1'' (MonthlyQuota sample_config) (fresh_world f) =
     (if f 0 then Inl (Wrapped ''failed to increment monthly quota'' ConnError) else Inr 1,
      after_quota f)"
  "RedisClient_IncrementRateLimit ''k1'' (getWindowKey sample_time time_Minute)
       (RequestsPerMinute sample_config) (after_quota f) =
     (if f 1 then Inl (Wrapped ''failed to increment rate limit'' ConnError) else Inr 1,
      after_minute f)"
  "RedisClient_IncrementRateLimit ''k1'' (getWindowKey sample_time time_Hour)
       (RequestsPerHour sample_config) (after_minute f) =
     (if f 2 then Inl (Wrapped ''failed to increment rate limit'' ConnError) else Inr 1,
      after_hour f)"
  "RedisClient_IncrementRateLimit ''k1'' (getWindowKey sample_time time_Day)
       (RequestsPerDay sample_config) (after_hour f) =
     (if f 3 then Inl (Wrapped ''failed to increment rate limit'' ConnError) else Inr 1,
      after_day f)"
proof -
  let ?q = "MonthlyQuota sample_config"
  let ?mk = "getWindowKey sample_time time_Minute" and ?hk = "getWindowKey sample_time time_Hour"
  let ?dk = "getWindowKey sample_time time_Day"
  note k = keys_distinct [of "''k1''" sample_time] keys_distinct(2-4) [of "''k1''" sample_time, symmetric]
    keys_distinct(1) [of "''k1''" sample_time, symmetric]
  have w0: "db (fresh_world f) key = None" "trips (fresh_world f) = 0" "fault (fresh_world f) = f"
    for key by (simp_all add: fresh_world_def)
  have q: "IncrementMonthlyQuota sample_time ''k1'' ?q (fresh_world f) =
      (fst (IncrementMonthlyQuota sample_time ''k1'' ?q (fresh_world f)), after_quota f)"
    by (simp add: after_quota_def)
  note sq = IncrementMonthlyQuota_step [OF q]
  have fq: "fault (after_quota f) = f"
    using IncrementMonthlyQuota_fresh(2) [where w = "fresh_world f" and apiKey = "''k1''"
        and now = sample_time and quota = "?q", OF w0(1)] w0(3)
    by (simp add: after_quota_def)
  from q IncrementMonthlyQuota_fresh(1) [where w = "fresh_world f" and apiKey = "''k1''"
        and now = sample_time and quota = "?q", OF w0(1)] w0
  show "IncrementMonthlyQuota sample_time ''k1'' ?q (fresh_world f) =
     (if f 0 then Inl (Wrapped ''failed to increment monthly quota'' ConnError) else Inr 1,
      after_quota f)"
    by simp
  have m: "RedisClient_IncrementRateLimit ''k1'' ?mk (RequestsPerMinute sample_config) (after_quota f) =
      (fst (RedisClient_IncrementRateLimit ''k1'' ?mk (RequestsPerMinute sample_config)
         (after_quota f)), after_minute f)"
    by (simp add: after_minute_def)
  note sm = RedisClient_IncrementRateLimit_step [OF m]
  have dq: "db (after_quota f) (rate_key ''k1'' ?mk) = None"
    using sq(2) [of "rate_key ''k1'' ?mk"] k w0(1) by simp
  have fm: "fault (after_minute f) = f"
    using RedisClient_IncrementRateLimit_fresh(2) [OF dq] fq by (simp add: after_minute_def)
  from m RedisClient_IncrementRateLimit_fresh(1) [OF dq] sq(1) w0(2) fq
  show "RedisClient_IncrementRateLimit ''k1'' ?mk (RequestsPerMinute sample_config) (after_quota f) =
     (if f 1 then Inl (Wrapped ''failed to increment rate limit'' ConnError) else Inr 1,
      after_minute f)"
    by simp
  have h: "RedisClient_IncrementRateLimit ''k1'' ?hk (RequestsPerHour sample_config) (after_minute f) =
      (fst (RedisClient_IncrementRateLimit ''k1'' ?hk (RequestsPerHour sample_config)
         (after_minute f)), after_hour f)"
    by (simp add: after_hour_def)
  note sh = RedisClient_IncrementRateLimit_step [OF h]
  have dm: "db (after_minute f) (rate_key ''k1'' ?hk) = None"
    using sq(2) [of "rate_key ''k1'' ?hk"] sm(2) [of "rate_key ''k1'' ?hk"] k w0(1) by simp
  have fh: "fault (after_hour f) = f"
    using RedisClient_IncrementRateLimit_fresh(2) [OF dm] fm by (simp add: after_hour_def)
  from h RedisClient_IncrementRateLimit_fresh(1) [OF dm] sq(1) sm(1) w0(2) fm
  show "RedisClient_IncrementRateLimit ''k1'' ?hk (RequestsPerHour sample_config) (after_minute f) =
     (if f 2 then Inl (Wrapped ''failed to increment rate limit'' ConnError) else Inr 1,
      after_hour f)"
    by (simp add: numeral_2_eq_2)
  have d: "RedisClient_IncrementRateLimit ''k1'' ?dk (RequestsPerDay sample_config) (after_hour f) =
      (fst (RedisClient_IncrementRateLimit ''k1'' ?dk (RequestsPerDay sample_config)
         (after_hour f)), after_day f)"
    by (simp add: after_day_def)
  have dh: "db (after_hour f) (rate_key ''k1'' ?dk) = None"
    using sq(2) [of "rate_key ''k1'' ?dk"] sm(2) [of "rate_key ''k1'' ?dk"]
      sh(2) [of "rate_key ''k1'' ?dk"] k w0(1) by simp
  from d RedisClient_IncrementRateLimit_fresh(1) [OF dh] sq(1) sm(1) sh(1) w0(2) fh
  show "RedisClient_IncrementRateLimit ''k1'' ?dk (RequestsPerDay sample_config) (after_hour f) =
     (if f 3 then Inl (Wrapped ''failed to increment rate limit'' ConnError) else Inr 1,
      after_day f)"
    by (simp add: numeral_3_eq_3)
qed


text \<open>
  Claim C3 asks that every increment of a window counter give that counter an expiry of at
  least the window's duration. The store client hands the constant \<^verbatim>\<open>time.Hour\<close> to
  \<^verbatim>\<open>EXPIRE\<close> for every window. After a commit on an empty store at 12:34:05, the day
  counter expires in one hour, which is less than the day window's 24 hours and less than
  the time left until the day bucket's reset.
\<close>

theorem C3_day_counter_expires_after_one_hour:
  "map_option ttl (db (after_day (\<lambda>n. False)) ''rate:k1:2024-01-01'') = Some (Some nanos_Hour)
   \<and> nanos_Hour < duration time_Day
   \<and> nanos_Hour < Sub (getWindowResetTime sample_time time_Day) sample_time"
proof -
  have key: "rate_key ''k1'' (getWindowKey sample_time time_Day) = ''rate:k1:2024-01-01''"
    by (simp only: sample_keys) simp
  from RedisClient_IncrementRateLimit_step(3) [OF fresh_trace(4) [of "\<lambda>n. False"], of 1]
  have "map_option ttl (db (after_day (\<lambda>n. False)) ''rate:k1:2024-01-01'') = Some (Some nanos_Hour)"
    unfolding key by auto
  moreover have "nanos_Hour < duration time_Day"
    by (simp add: nanos_Hour_def nanos_Minute_def)
  moreover have "nanos_Hour < Sub (getWindowResetTime sample_time time_Day) sample_time"
    unfolding reset_is_calendar_successor [OF sample_time_valid sample_time_fixed] sample_resets
    by (simp add: Sub_def Unix_def absSeconds_def absDays_def sample_time_def
        daysSinceEpoch_def daysBefore_def isLeap_def nanos_Hour_def nanos_Minute_def
        minInt64_def maxInt64_def)
  ultimately show ?thesis by blast
qed

end
